theory Spec2Isabelle
  imports Complex_Main "HOL-Library.Log_Nat"
begin

section \<open>Binary64 arithmetic\<close>

text \<open>
  numpy computes the load factors in IEEE 754 binary64. A finite double is a rational number,
  and an arithmetic operation returns the exact result rounded to the nearest double, ties
  to the even significand. \<open>fl\<close> is that rounding: \<open>binade x\<close> is the exponent \<open>e\<close> with
  \<open>2^e \<le> x < 2^(e + 1)\<close> (found from the bit lengths of numerator and denominator), a double
  in that binade is a multiple of \<open>2^(e - 52)\<close>, and \<open>fl\<close> rounds to the nearest multiple.
  The exponent range is not modelled: the numbers of the script (magnitudes between
  \<open>2^(-8)\<close> and 200) neither overflow nor are subnormal.
\<close>

definition pow2 :: "int \<Rightarrow> rat" where
  "pow2 e = (if 0 \<le> e then 2 ^ nat e else 1 / 2 ^ nat (- e))"

definition round_half_even :: "rat \<Rightarrow> int" where
  "round_half_even q =
     (let n = \<lfloor>q\<rfloor>; r = q - of_int n
      in if r < 1 / 2 then n else if 1 / 2 < r then n + 1 else if even n then n else n + 1)"

definition binade :: "rat \<Rightarrow> int" where
  "binade x =
     (case quotient_of x of (a, b) \<Rightarrow>
        (let d = bitlen a - bitlen b in if pow2 d \<le> x then d else d - 1))"

definition fl :: "rat \<Rightarrow> rat" where
  "fl x =
     (if x = 0 then 0
      else let u = pow2 (binade \<bar>x\<bar> - 52)
           in sgn x * of_int (round_half_even (\<bar>x\<bar> / u)) * u)"

section \<open>The load factors: \<^verbatim>\<open>np.linspace(0, 1, num=200 + 1)\<close>\<close>

text \<open>
  The loop of \<^verbatim>\<open>beam_static.py\<close> (line 224) runs over \<^verbatim>\<open>np.linspace(0, 1, num=200 + 1)\<close>.
  \<^verbatim>\<open>linspace\<close> follows numpy's algorithm for \<^verbatim>\<open>endpoint=True\<close> on \<^verbatim>\<open>float64\<close> arrays:
  \<^verbatim>\<open>
    div = num - 1
    y = arange(0, num)
    delta = stop - start
    if div > 0:
        step = delta / div
        if step == 0: y = y / div; y = y * delta
        else:         y = y * step
    else:
        y = y * delta
    y += start
    if num > 1: y[-1] = stop
  \<close>
  Every subtraction, division, product and sum is rounded by \<open>fl\<close>. The integers of
  \<^verbatim>\<open>arange\<close> are doubles as they are (for \<open>num\<close> up to \<open>2^53\<close>). For \<open>num = 0\<close> numpy has
  \<open>div = -1\<close>; the truncated \<open>0 - 1 = 0\<close> on \<open>nat\<close> takes the same branch (\<open>div > 0\<close> is
  false) on the empty array; \<open>dv\<close> is numpy's \<open>div\<close>.
\<close>

definition linspace :: "rat \<Rightarrow> rat \<Rightarrow> nat \<Rightarrow> rat list" where
  "linspace start stop num =
     (let dv = num - 1;
          y = map of_nat [0..<num];
          delta = fl (stop - start);
          y = (if dv > 0 then
                 (let step = fl (delta / of_nat dv) in
                  if step = 0 then map (\<lambda>v. fl (v * delta)) (map (\<lambda>v. fl (v / of_nat dv)) y)
                  else map (\<lambda>v. fl (v * step)) y)
               else map (\<lambda>v. fl (v * delta)) y);
          y = map (\<lambda>v. fl (v + start)) y
      in if num > 1 then y[num - 1 := stop] else y)"

text \<open>The load factors as the real numbers the doubles are.\<close>

definition load_factors :: "nat \<Rightarrow> real list" where
  "load_factors num = map real_of_rat (linspace 0 1 num)"

section \<open>Fields, geometry and quadrature\<close>

type_synonym vec3 = "real \<times> real \<times> real"

definition dot3 :: "vec3 \<Rightarrow> vec3 \<Rightarrow> real" where
  "dot3 a b = (case a of (a0, a1, a2) \<Rightarrow> case b of (b0, b1, b2) \<Rightarrow> a0 * b0 + a1 * b1 + a2 * b2)"

text \<open>
  A \<^verbatim>\<open>dolfinx.Function\<close> is seen by the script only through the expressions built on it:
  its value and its gradient \<^verbatim>\<open>ufl.grad(u)\<close> at the points \<open>'x\<close> of the mesh.
\<close>

record 'x Function =
  val :: "'x \<Rightarrow> real"
  grad :: "'x \<Rightarrow> vec3"

text \<open>
  \<^verbatim>\<open>dolfinx.Function(V)\<close> (lines 219 to 221) allocates a function whose coefficient vector
  is zero, so its value and gradient vanish everywhere.
\<close>

definition Function_new :: "'x Function" where
  "Function_new = \<lparr>val = (\<lambda>x. 0), grad = (\<lambda>x. (0, 0, 0))\<rparr>"

text \<open>
  What the mesh collaborator supplies (lines 29 to 52, 73, 74, 99 to 120): the gradient of the
  spatial coordinate \<^verbatim>\<open>x0\<close> (row \<open>i\<close> is \<^verbatim>\<open>ufl.grad(x0[i])\<close>), the row \<^verbatim>\<open>iJ0[0, :]\<close> of the inverse
  Jacobian, the Jacobian determinant, the component \<^verbatim>\<open>B0[0, 0]\<close> of the curvature tensor, and the
  integration measures \<^verbatim>\<open>dx\<close> and \<^verbatim>\<open>ds(tag)\<close> as quadrature rules (weight and point).
\<close>

record 'x mesh =
  grad_x0 :: "'x \<Rightarrow> vec3 \<times> vec3 \<times> vec3"
  iJ0_0 :: "'x \<Rightarrow> vec3"
  detJ0 :: "'x \<Rightarrow> real"
  B0_00 :: "'x \<Rightarrow> real"
  dx :: "(real \<times> 'x) list"
  ds :: "nat \<Rightarrow> (real \<times> 'x) list"
  beg :: nat
  end_tag :: nat

text \<open>
  \<^verbatim>\<open>dolfinx.fem.assemble_scalar(f * dx)\<close>: the integral of a scalar integrand, computed as
  the weighted sum of its values at the quadrature points of the measure.
\<close>

definition assemble_scalar :: "('x \<Rightarrow> real) \<Rightarrow> (real \<times> 'x) list \<Rightarrow> real" where
  "assemble_scalar f ms = sum_list (map (\<lambda>(wt, x). wt * f x) ms)"

text \<open>
  The coefficients a UFL expression of the script can read when it is evaluated: the load
  factor \<^verbatim>\<open>\<mu>.value\<close> and the functions \<^verbatim>\<open>u\<close>, \<^verbatim>\<open>w\<close>, \<^verbatim>\<open>r\<close>. An expression is a function of
  these and of the point.
\<close>

record 'x coeffs =
  c_mu :: real
  c_u :: "'x Function"
  c_w :: "'x Function"
  c_r :: "'x Function"

type_synonym 'x expr = "'x coeffs \<Rightarrow> 'x \<Rightarrow> real"

text \<open>
  Line 128: \<^verbatim>\<open>GRAD = lambda u: detJ0 * ufl.dot(iJ0[0, :], ufl.grad(u))\<close>, for a scalar argument
  (given by its gradient) and for the vector \<^verbatim>\<open>x0\<close>, where \<^verbatim>\<open>ufl.dot\<close> contracts the row with
  the first index of \<^verbatim>\<open>ufl.grad(x0)\<close>.
\<close>

definition GRAD :: "'x mesh \<Rightarrow> ('x \<Rightarrow> vec3) \<Rightarrow> 'x \<Rightarrow> real" where
  "GRAD mesh grad_u x = detJ0 mesh x * dot3 (iJ0_0 mesh x) (grad_u x)"

definition GRAD_x0 :: "'x mesh \<Rightarrow> 'x \<Rightarrow> vec3" where
  "GRAD_x0 mesh x =
     (case grad_x0 mesh x of ((a00, a01, a02), (a10, a11, a12), (a20, a21, a22)) \<Rightarrow>
        (detJ0 mesh x * dot3 (iJ0_0 mesh x) (a00, a10, a20),
         detJ0 mesh x * dot3 (iJ0_0 mesh x) (a01, a11, a21),
         detJ0 mesh x * dot3 (iJ0_0 mesh x) (a02, a12, a22)))"

section \<open>The expressions and the weak form of the script\<close>

text \<open>
  The test functions and the variations \<^verbatim>\<open>\<delta>e\<close>, \<^verbatim>\<open>\<delta>g\<close>, \<^verbatim>\<open>\<delta>k\<close> (lines 90 to 92, 152 to 162):
  \<^verbatim>\<open>ufl.derivative\<close> is the symbolic collaborator's, so the variations are taken as given
  expressions.
\<close>

record 'x variation =
  delta_u :: "'x \<Rightarrow> real"
  delta_w :: "'x \<Rightarrow> real"
  delta_r :: "'x \<Rightarrow> real"
  delta_e :: "'x expr"
  delta_g :: "'x expr"
  delta_k :: "'x expr"

text \<open>
  The names the script binds (lines 55 to 172), as they stand when the loop starts. The
  fields carry the script's names after a prefix: \<open>v_\<close> for a constant's value, \<open>x_\<close> for an
  expression; \<open>x_kappa0_derived\<close> is the first binding of \<^verbatim>\<open>\<kappa>0\<close> (line 122), which only the two
  prints of lines 124 and 125 read, and \<open>x_kappa0\<close> is the name \<^verbatim>\<open>\<kappa>0\<close> after line 141.
\<close>

record 'x forms =
  v_EA :: real
  v_EI :: real
  v_GA :: real
  v_p_1 :: real
  v_p_3 :: real
  v_m_2 :: real
  v_F_1 :: real
  v_F_3 :: real
  v_M_2 :: real
  x_kappa0_derived :: "'x expr"
  x_lambda_s :: "'x expr"
  x_lambda_xi :: "'x expr"
  x_lambda_0 :: "'x expr"
  x_kappa :: "'x expr"
  x_kappa0 :: "'x expr"
  x_ep :: "'x expr"
  x_e :: "'x expr"
  x_g :: "'x expr"
  x_k :: "'x expr"
  x_N :: "'x expr"
  x_T :: "'x expr"
  x_M :: "'x expr"
  x_F :: "'x variation \<Rightarrow> 'x coeffs \<Rightarrow> real"

text \<open>
  The bindings in the script's order; a name bound twice (\<^verbatim>\<open>\<kappa>0\<close>, lines 122 and 141) is bound
  twice here, and every later use reads the later binding. \<^verbatim>\<open>1.0e+8\<close>, \<^verbatim>\<open>1.0e-4\<close> and
  \<^verbatim>\<open>1.0e-6\<close> are written out. \<open>x0_0\<close> and \<open>x0_2\<close> are \<^verbatim>\<open>ufl.grad(x0[0])\<close> and
  \<^verbatim>\<open>ufl.grad(x0[2])\<close>; \<open>kappa0_derived\<close> keeps the first binding of \<^verbatim>\<open>\<kappa>0\<close> for the record.
\<close>

definition beam_forms :: "'x mesh \<Rightarrow> 'x forms" where
  "beam_forms mesh =
    (let L = 1.0;
         E = 100000000;
         G = E / 2;
         A = 1 / 10000;
         I = 1 / 1000000;
         EA = E * A;
         EI = E * I;
         GA = G * A;
         p_1 = 1.0 * 0;
         p_3 = 1.0 * 0;
         m_2 = 1.0 * 0;
         F_1 = (2.0 * pi / L)^2 * EI * 0;
         F_3 = (0.5 * pi / L)^2 * EI * 0;
         M_2 = (2.0 * pi / L)^1 * EI * 0;
         x0_0 = (\<lambda>x. fst (grad_x0 mesh x));
         x0_2 = (\<lambda>x. snd (snd (grad_x0 mesh x)));
         kappa0 = (\<lambda>c x. - B0_00 mesh x);
         kappa0_derived = kappa0;
         lambda_s = (\<lambda>c x.
            (1.0 + GRAD mesh x0_0 x * GRAD mesh (grad (c_u c)) x
                 + GRAD mesh x0_2 x * GRAD mesh (grad (c_w c)) x) * cos (val (c_r c) x) +
            (GRAD mesh x0_2 x * GRAD mesh (grad (c_u c)) x
               - GRAD mesh x0_0 x * GRAD mesh (grad (c_w c)) x) * sin (val (c_r c) x));
         lambda_xi = (\<lambda>c x.
            (1.0 + GRAD mesh x0_0 x * GRAD mesh (grad (c_u c)) x
                 + GRAD mesh x0_2 x * GRAD mesh (grad (c_w c)) x) * sin (val (c_r c) x) -
            (GRAD mesh x0_2 x * GRAD mesh (grad (c_u c)) x
               - GRAD mesh x0_0 x * GRAD mesh (grad (c_w c)) x) * cos (val (c_r c) x));
         lambda_0 = (\<lambda>c x. sqrt (dot3 (GRAD_x0 mesh x) (GRAD_x0 mesh x)));
         kappa = (\<lambda>c x. - GRAD mesh (grad (c_r c)) x);
         kappa0 = (\<lambda>c x. - 2 * pi);
         lambda_p = 2 / 5;
         ep = (\<lambda>c x. c_mu c * 1 / 2 * (lambda_p^2 - (lambda_0 c x)^2) * 0);
         e = (\<lambda>c x. 1 / 2 * ((lambda_s c x)^2 + (lambda_xi c x)^2 - (lambda_0 c x)^2) - ep c x);
         g = lambda_xi;
         k = (\<lambda>c x. lambda_s c x * kappa c x + (lambda_s c x - lambda_0 c x) * kappa0 c x);
         N = (\<lambda>c x. EA * e c x);
         T = (\<lambda>c x. GA * g c x);
         M = (\<lambda>c x. EI * k c x);
         F = (\<lambda>v c.
            - assemble_scalar (\<lambda>x. delta_e v c x * N c x) (dx mesh)
            - assemble_scalar (\<lambda>x. delta_g v c x * T c x) (dx mesh)
            - assemble_scalar (\<lambda>x. delta_k v c x * M c x) (dx mesh)
            + c_mu c * (assemble_scalar (\<lambda>x. delta_u v x * p_1) (dx mesh)
                      + assemble_scalar (\<lambda>x. delta_w v x * p_3) (dx mesh)
                      + assemble_scalar (\<lambda>x. delta_r v x * m_2) (dx mesh))
            + c_mu c * (assemble_scalar (\<lambda>x. delta_u v x * F_1) (ds mesh (end_tag mesh))
                      + assemble_scalar (\<lambda>x. delta_w v x * F_3) (ds mesh (end_tag mesh))
                      + assemble_scalar (\<lambda>x. delta_r v x * M_2) (ds mesh (end_tag mesh))))
     in \<lparr>v_EA = EA, v_EI = EI, v_GA = GA,
         v_p_1 = p_1, v_p_3 = p_3, v_m_2 = m_2, v_F_1 = F_1, v_F_3 = F_3, v_M_2 = M_2,
         x_kappa0_derived = kappa0_derived,
         x_lambda_s = lambda_s, x_lambda_xi = lambda_xi, x_lambda_0 = lambda_0,
         x_kappa = kappa, x_kappa0 = kappa0, x_ep = ep, x_e = e, x_g = g, x_k = k,
         x_N = N, x_T = T, x_M = M, x_F = F\<rparr>)"

section \<open>The load-stepping loop\<close>

text \<open>A Dirichlet condition (lines 231 to 233): the prescribed function and the constrained dofs.\<close>

record 'x DirichletBC =
  bc_value :: "'x Function"
  bc_dofs :: "nat list"

text \<open>
  The nonlinear solver collaborator, \<^verbatim>\<open>dolfiny.snesblockproblem.SNESBlockProblem\<close>, is not part
  of the script. Its state \<open>'p\<close> is opaque; the script uses three operations on it:
  \<^verbatim>\<open>problem.solve()\<close>, which reads the load factor (through the form) and \<^verbatim>\<open>problem.bcs\<close>,
  changes the problem and returns the solution; \<^verbatim>\<open>problem.snes.getConvergedReason()\<close>; and the
  current functions \<^verbatim>\<open>u\<close>, \<^verbatim>\<open>w\<close>, \<^verbatim>\<open>r\<close> handed to the problem at line 212, which the
  diagnostic expressions read.
\<close>

record ('p, 'x) SNESBlockProblem =
  solve :: "real \<Rightarrow> 'x DirichletBC list \<Rightarrow> 'p \<Rightarrow> 'p \<times> 'x Function list"
  getConvergedReason :: "'p \<Rightarrow> int"
  problem_functions :: "'p \<Rightarrow> 'x Function \<times> 'x Function \<times> 'x Function"

text \<open>
  What the loop reads of its surroundings: the expressions, the mesh, the located dofs
  (lines 215 to 217) and the prescribed functions (lines 219 to 221).
\<close>

record 'x script_env =
  forms :: "'x forms"
  the_mesh :: "'x mesh"
  left_dofs_U :: "nat list"
  left_dofs_W :: "nat list"
  left_dofs_R :: "nat list"
  u_left :: "'x Function"
  w_left :: "'x Function"
  r_left :: "'x Function"

text \<open>
  The effects of the script, in the order they happen: the assignment to \<^verbatim>\<open>\<mu>.value\<close>, the
  assignment to \<^verbatim>\<open>problem.bcs\<close>, the \<^verbatim>\<open>pprint\<close> of the load factor, the call of
  \<^verbatim>\<open>problem.solve()\<close> (with the load factor and the conditions it sees and the solution it
  returns), the evaluation of the assertion (with the reason read) and a \<^verbatim>\<open>print\<close> of a
  labelled number. Labels are in ASCII (\<open>kappa\<close> for \<^verbatim>\<open>\<kappa>\<close>); number formatting is left out.
\<close>

datatype 'x event =
    SetMu real
  | SetBcs "'x DirichletBC list"
  | Pprint real
  | Solve real "'x DirichletBC list" "'x Function list"
  | Assert int
  | Print string real

datatype error = AssertionError string | ValueError

text \<open>
  The state the loop changes: \<^verbatim>\<open>\<mu>.value\<close>, \<^verbatim>\<open>problem.bcs\<close>, the problem, the variable \<^verbatim>\<open>m\<close>,
  and the trace of effects so far.
\<close>

record ('p, 'x) state =
  mu_value :: real
  problem_bcs :: "'x DirichletBC list"
  problem :: 'p
  m_var :: "'x Function list"
  trace :: "'x event list"

definition emit :: "'x event \<Rightarrow> ('p, 'x) state \<Rightarrow> ('p, 'x) state" where
  "emit ev st = st\<lparr>trace := trace st @ [ev]\<rparr>"

text \<open>Line 227: \<^verbatim>\<open>\<mu>.value = factor\<close>.\<close>

definition set_mu :: "real \<Rightarrow> ('p, 'x) state \<Rightarrow> ('p, 'x) state" where
  "set_mu factor st = emit (SetMu factor) (st\<lparr>mu_value := factor\<rparr>)"

text \<open>Lines 230 to 234: \<^verbatim>\<open>problem.bcs = [...]\<close>.\<close>

definition new_bcs :: "'x script_env \<Rightarrow> 'x DirichletBC list" where
  "new_bcs env =
     [\<lparr>bc_value = u_left env, bc_dofs = left_dofs_U env\<rparr>,
      \<lparr>bc_value = w_left env, bc_dofs = left_dofs_W env\<rparr>,
      \<lparr>bc_value = r_left env, bc_dofs = left_dofs_R env\<rparr>]"

definition set_bcs :: "'x script_env \<Rightarrow> ('p, 'x) state \<Rightarrow> ('p, 'x) state" where
  "set_bcs env st = emit (SetBcs (new_bcs env)) (st\<lparr>problem_bcs := new_bcs env\<rparr>)"

text \<open>Line 236: the \<^verbatim>\<open>pprint\<close> of the load factor.\<close>

definition pprint_mu :: "('p, 'x) state \<Rightarrow> ('p, 'x) state" where
  "pprint_mu st = emit (Pprint (mu_value st)) st"

text \<open>Line 239: \<^verbatim>\<open>m = problem.solve()\<close>.\<close>

definition problem_solve :: "('p, 'x) SNESBlockProblem \<Rightarrow> ('p, 'x) state \<Rightarrow> ('p, 'x) state" where
  "problem_solve P st =
     (case solve P (mu_value st) (problem_bcs st) (problem st) of (p', ret) \<Rightarrow>
        emit (Solve (mu_value st) (problem_bcs st) ret) (st\<lparr>problem := p', m_var := ret\<rparr>))"

text \<open>
  Line 242: \<^verbatim>\<open>assert problem.snes.getConvergedReason() > 0, "Nonlinear solver did not converge!"\<close>.
  The failed assertion leaves with the state reached.
\<close>

definition assert_converged ::
  "('p, 'x) SNESBlockProblem \<Rightarrow> ('p, 'x) state \<Rightarrow> error \<times> ('p, 'x) state + ('p, 'x) state" where
  "assert_converged P st =
     (let reason = getConvergedReason P (problem st);
          st' = emit (Assert reason) st
      in if reason > 0 then Inr st'
         else Inl (AssertionError ''Nonlinear solver did not converge!'', st'))"

text \<open>
  Lines 244 to 252: the eight diagnostic prints, each an \<^verbatim>\<open>assemble_scalar\<close> over \<^verbatim>\<open>dx\<close> of an
  expression evaluated at the current load factor and functions.
\<close>

definition current_coeffs :: "('p, 'x) SNESBlockProblem \<Rightarrow> ('p, 'x) state \<Rightarrow> 'x coeffs" where
  "current_coeffs P st =
     (case problem_functions P (problem st) of (u, w, r) \<Rightarrow>
        \<lparr>c_mu = mu_value st, c_u = u, c_w = w, c_r = r\<rparr>)"

definition diagnostics :: "'x script_env \<Rightarrow> 'x coeffs \<Rightarrow> 'x event list" where
  "diagnostics env c =
     (let f = forms env; dx = dx (the_mesh env) in
      [Print ''L0'' (assemble_scalar (\<lambda>x. sqrt ((x_lambda_0 f c x)^2)) dx),
       Print ''L'' (assemble_scalar (\<lambda>x. sqrt ((x_lambda_s f c x)^2 + (x_lambda_xi f c x)^2)) dx),
       Print ''ep'' (assemble_scalar (x_ep f c) dx),
       Print ''e'' (assemble_scalar (x_e f c) dx),
       Print ''g'' (assemble_scalar (x_g f c) dx),
       Print ''k'' (assemble_scalar (x_k f c) dx),
       Print ''kappa'' (assemble_scalar (x_kappa f c) dx),
       Print ''kappa0'' (assemble_scalar (x_kappa0 f c) dx)])"

definition print_diagnostics ::
  "('p, 'x) SNESBlockProblem \<Rightarrow> 'x script_env \<Rightarrow> ('p, 'x) state \<Rightarrow> ('p, 'x) state" where
  "print_diagnostics P env st = st\<lparr>trace := trace st @ diagnostics env (current_coeffs P st)\<rparr>"

text \<open>The body of the loop, lines 225 to 252, for one value of \<^verbatim>\<open>factor\<close>.\<close>

definition load_step ::
  "('p, 'x) SNESBlockProblem \<Rightarrow> 'x script_env \<Rightarrow> real \<Rightarrow> ('p, 'x) state
     \<Rightarrow> error \<times> ('p, 'x) state + ('p, 'x) state" where
  "load_step P env factor st =
     (case assert_converged P (problem_solve P (pprint_mu (set_bcs env (set_mu factor st)))) of
        Inl err \<Rightarrow> Inl err
      | Inr st' \<Rightarrow> Inr (print_diagnostics P env st'))"

text \<open>The \<^verbatim>\<open>for\<close> loop of line 224 over a sequence of factors.\<close>

fun load_steps ::
  "('p, 'x) SNESBlockProblem \<Rightarrow> 'x script_env \<Rightarrow> real list \<Rightarrow> ('p, 'x) state
     \<Rightarrow> error \<times> ('p, 'x) state + ('p, 'x) state" where
  "load_steps P env [] st = Inr st"
| "load_steps P env (factor # factors) st =
     (case load_step P env factor st of
        Inl err \<Rightarrow> Inl err
      | Inr st' \<Rightarrow> load_steps P env factors st')"

text \<open>
  The loop with the number of load factors as a parameter; the script has \<^verbatim>\<open>num=200 + 1\<close>.
\<close>

definition process_load_steps ::
  "nat \<Rightarrow> ('p, 'x) SNESBlockProblem \<Rightarrow> 'x script_env \<Rightarrow> ('p, 'x) state
     \<Rightarrow> error \<times> ('p, 'x) state + ('p, 'x) state" where
  "process_load_steps num P env st = load_steps P env (load_factors num) st"

section \<open>The script\<close>

text \<open>
  The script from the construction of the problem to the extraction of the solution. Its
  inputs are the collaborators' results: the mesh, the solver operations, the problem as
  constructed at line 212 and the dofs located at lines 215 to 217. Before the loop,
  \<^verbatim>\<open>\<mu>\<close> is 1.0 (line 63), \<^verbatim>\<open>m\<close> is \<^verbatim>\<open>[u, w, r]\<close> (line 95), no boundary condition has been set, and
  the two prints of lines 124 and 125 have happened. After the loop, line 255 unpacks \<^verbatim>\<open>m\<close>
  into \<^verbatim>\<open>u_, w_, r_\<close>, which raises \<^verbatim>\<open>ValueError\<close> unless \<^verbatim>\<open>m\<close> has three elements.
\<close>

definition the_env :: "'x mesh \<Rightarrow> nat list \<times> nat list \<times> nat list \<Rightarrow> 'x script_env" where
  "the_env mesh dofs =
     (case dofs of (dofs_U, dofs_W, dofs_R) \<Rightarrow>
        \<lparr>forms = beam_forms mesh, the_mesh = mesh,
         left_dofs_U = dofs_U, left_dofs_W = dofs_W, left_dofs_R = dofs_R,
         u_left = Function_new, w_left = Function_new, r_left = Function_new\<rparr>)"

definition initial_state ::
  "('p, 'x) SNESBlockProblem \<Rightarrow> 'x mesh \<Rightarrow> 'p \<Rightarrow> ('p, 'x) state" where
  "initial_state P mesh p0 =
     (case problem_functions P p0 of (u, w, r) \<Rightarrow>
        \<lparr>mu_value = 1.0, problem_bcs = [], problem = p0, m_var = [u, w, r],
         trace =
           [Print ''kappa0(beg)''
              (assemble_scalar
                 (x_kappa0_derived (beam_forms mesh) \<lparr>c_mu = 1.0, c_u = u, c_w = w, c_r = r\<rparr>)
                 (ds mesh (beg mesh))),
            Print ''kappa0(end)''
              (assemble_scalar
                 (x_kappa0_derived (beam_forms mesh) \<lparr>c_mu = 1.0, c_u = u, c_w = w, c_r = r\<rparr>)
                 (ds mesh (end_tag mesh)))]\<rparr>)"

definition extract_solution ::
  "('p, 'x) state \<Rightarrow> error \<times> ('p, 'x) state + ('x Function \<times> 'x Function \<times> 'x Function) \<times> ('p, 'x) state" where
  "extract_solution st =
     (case m_var st of
        [u_, w_, r_] \<Rightarrow> Inr ((u_, w_, r_), st)
      | _ \<Rightarrow> Inl (ValueError, st))"

definition beam_static ::
  "('p, 'x) SNESBlockProblem \<Rightarrow> 'x mesh \<Rightarrow> nat list \<times> nat list \<times> nat list \<Rightarrow> 'p
     \<Rightarrow> error \<times> ('p, 'x) state + ('x Function \<times> 'x Function \<times> 'x Function) \<times> ('p, 'x) state" where
  "beam_static P mesh dofs p0 =
     (case process_load_steps (200 + 1) P (the_env mesh dofs) (initial_state P mesh p0) of
        Inl err \<Rightarrow> Inl err
      | Inr st \<Rightarrow> extract_solution st)"

text \<open>
  The state in which line 242 is reached: the load factor and the boundary conditions are
  set, the factor is printed and the solve has returned.
\<close>

definition before_assert ::
  "('p, 'x) SNESBlockProblem \<Rightarrow> 'x script_env \<Rightarrow> real \<Rightarrow> ('p, 'x) state \<Rightarrow> ('p, 'x) state" where
  "before_assert P env factor st = problem_solve P (pprint_mu (set_bcs env (set_mu factor st)))"

text \<open>The state in which a run of the loop, or of the script, ends: normally or at the error.\<close>

definition loop_end :: "error \<times> ('p, 'x) state + ('p, 'x) state \<Rightarrow> ('p, 'x) state" where
  "loop_end res = (case res of Inl (err, st) \<Rightarrow> st | Inr st \<Rightarrow> st)"

definition script_end ::
  "error \<times> ('p, 'x) state + ('x Function \<times> 'x Function \<times> 'x Function) \<times> ('p, 'x) state
     \<Rightarrow> ('p, 'x) state" where
  "script_end res = (case res of Inl (err, st) \<Rightarrow> st | Inr (sol, st) \<Rightarrow> st)"

text \<open>
  Reading a trace: the load factors of the solves, the boundary conditions the solves saw,
  what the solves returned, the boundary conditions assigned, the reasons the assertion read,
  the last solve (its load factor and what it returned), and the numbers printed under a
  label.
\<close>

fun solve_factors :: "'x event list \<Rightarrow> real list" where
  "solve_factors [] = []"
| "solve_factors (Solve factor bcs ret # evs) = factor # solve_factors evs"
| "solve_factors (ev # evs) = solve_factors evs"

fun solve_returns :: "'x event list \<Rightarrow> 'x Function list list" where
  "solve_returns [] = []"
| "solve_returns (Solve factor bcs ret # evs) = ret # solve_returns evs"
| "solve_returns (ev # evs) = solve_returns evs"

fun printed :: "string \<Rightarrow> 'x event list \<Rightarrow> real list" where
  "printed label [] = []"
| "printed label (Print l v # evs) = (if l = label then v # printed label evs else printed label evs)"
| "printed label (ev # evs) = printed label evs"

fun solve_bcs :: "'x event list \<Rightarrow> 'x DirichletBC list list" where
  "solve_bcs [] = []"
| "solve_bcs (Solve factor bcs ret # evs) = bcs # solve_bcs evs"
| "solve_bcs (ev # evs) = solve_bcs evs"

fun assigned_bcs :: "'x event list \<Rightarrow> 'x DirichletBC list list" where
  "assigned_bcs [] = []"
| "assigned_bcs (SetBcs bcs # evs) = bcs # assigned_bcs evs"
| "assigned_bcs (ev # evs) = assigned_bcs evs"

fun last_solve :: "'x event list \<Rightarrow> (real \<times> 'x Function list) option" where
  "last_solve [] = None"
| "last_solve (Solve factor bcs ret # evs) =
     (case last_solve evs of None \<Rightarrow> Some (factor, ret) | Some s \<Rightarrow> Some s)"
| "last_solve (ev # evs) = last_solve evs"

fun asserted :: "'x event list \<Rightarrow> int list" where
  "asserted [] = []"
| "asserted (Assert reason # evs) = reason # asserted evs"
| "asserted (ev # evs) = asserted evs"

text \<open>
  The results of successive calls of \<^verbatim>\<open>problem.solve()\<close>, one for each load factor of a
  sequence in order, with fixed boundary conditions: each call starts from the problem the
  previous call left, and gives the problem it leaves and the solution it returns.
\<close>

fun solves ::
  "('p, 'x) SNESBlockProblem \<Rightarrow> 'x DirichletBC list \<Rightarrow> 'p \<Rightarrow> real list
     \<Rightarrow> ('p \<times> 'x Function list) list" where
  "solves P bcs p [] = []"
| "solves P bcs p (factor # factors) =
     solve P factor bcs p # solves P bcs (fst (solve P factor bcs p)) factors"

section \<open>Concrete collaborators\<close>

text \<open>
  A mesh with two quadrature points in the domain and one at each end, a solver that always
  converges, a solver whose second and later solves fail with reason \<open>-3\<close>, and a solver
  whose reason is 0 until its first solve and positive after every solve. The solver state
  counts the solves.
\<close>

definition example_mesh :: "nat mesh" where
  "example_mesh =
     \<lparr>grad_x0 = (\<lambda>x. ((1, 0, 0), (0, 1, 0), (0, 0, 1))),
      iJ0_0 = (\<lambda>x. (1, 0, 0)),
      detJ0 = (\<lambda>x. 1),
      B0_00 = (\<lambda>x. 3),
      dx = [(1 / 2, 0), (1 / 2, 1)],
      ds = (\<lambda>tag. [(1, tag)]),
      beg = 0,
      end_tag = 1\<rparr>"

definition example_dofs :: "nat list \<times> nat list \<times> nat list" where
  "example_dofs = ([0], [0], [0])"

definition converging_problem :: "(nat, nat) SNESBlockProblem" where
  "converging_problem =
     \<lparr>solve = (\<lambda>factor bcs p. (Suc p, [Function_new, Function_new, Function_new])),
      getConvergedReason = (\<lambda>p. 2),
      problem_functions = (\<lambda>p. (Function_new, Function_new, Function_new))\<rparr>"


definition fresh_problem :: "(nat, nat) SNESBlockProblem" where
  "fresh_problem =
     \<lparr>solve = (\<lambda>factor bcs p. (Suc p, [Function_new, Function_new, Function_new])),
      getConvergedReason = (\<lambda>p. if p = 0 then 0 else 2),
      problem_functions = (\<lambda>p. (Function_new, Function_new, Function_new))\<rparr>"

section \<open>Facts about \<open>fl\<close>, \<open>linspace\<close> and the loop\<close>

subsection \<open>Rounding\<close>

lemma pow2_powi: "pow2 e = 2 powi e"
  by (simp add: pow2_def power_int_def power_one_over inverse_eq_divide)

lemma pow2_pos: "0 < pow2 e"
  by (simp add: pow2_powi)

lemma pow2_diff: "pow2 (a - b) = pow2 a / pow2 b"
  by (simp add: pow2_powi power_int_diff)

lemma pow2_52: "pow2 52 = 2 ^ 52"
  by (simp add: pow2_def)

lemma pow2_binade_le:
  assumes "0 < x"
  shows "pow2 (binade x) \<le> x"
proof -
  obtain a b where q: "quotient_of x = (a, b)"
    by (cases "quotient_of x")
  have b: "0 < b"
    using q by (rule quotient_of_denom_pos)
  have x: "x = of_int a / of_int b"
    using q by (rule quotient_of_div)
  have a: "0 < a"
    using assms b x by (simp add: zero_less_divide_iff)
  let ?d = "bitlen a - bitlen b"
  show ?thesis
  proof (cases "pow2 ?d \<le> x")
    case True
    then show ?thesis
      by (simp add: binade_def q Let_def)
  next
    case False
    have la: "(2::int) ^ nat (bitlen a - 1) \<le> a"
      using bitlen_bounds [OF a] by simp
    have lb: "b < 2 ^ nat (bitlen b)"
      using bitlen_bounds [OF b] by simp
    have la1: "1 \<le> bitlen a"
      using a bitlen_nonneg [of a] bitlen_eq_zero_iff [of a] by linarith
    have lb0: "0 \<le> bitlen b"
      by (rule bitlen_nonneg)
    have "pow2 (?d - 1) = pow2 (bitlen a - 1) / pow2 (bitlen b)"
      by (simp add: pow2_diff [symmetric] algebra_simps)
    also have "\<dots> = 2 ^ nat (bitlen a - 1) / 2 ^ nat (bitlen b)"
      using la1 lb0 by (simp add: pow2_def)
    also have "\<dots> \<le> of_int a / 2 ^ nat (bitlen b)"
    proof -
      have "(of_int ((2::int) ^ nat (bitlen a - 1)) :: rat) \<le> of_int a"
        using la by (simp only: of_int_le_iff)
      then show ?thesis
        by (simp add: divide_right_mono)
    qed
    also have "\<dots> \<le> of_int a / of_int b"
    proof -
      have "(of_int b :: rat) \<le> of_int ((2::int) ^ nat (bitlen b))"
        using lb by (simp only: of_int_le_iff)
      then show ?thesis
        using a b by (simp add: frac_le)
    qed
    finally have "pow2 (?d - 1) \<le> x"
      by (simp add: x)
    with False show ?thesis
      by (simp add: binade_def q Let_def)
  qed
qed

lemma round_half_even_error: "\<bar>of_int (round_half_even q) - q\<bar> \<le> 1 / 2"
proof -
  have "of_int \<lfloor>q\<rfloor> \<le> q" "q < of_int \<lfloor>q\<rfloor> + 1"
    by linarith+
  then show ?thesis
    by (auto simp add: round_half_even_def Let_def)
qed

lemma fl_zero: "fl 0 = 0"
  by (simp add: fl_def)

lemma fl_error:
  assumes "0 \<le> x"
  shows "\<bar>fl x - x\<bar> \<le> x / 2 ^ 53"
proof (cases "x = 0")
  case True
  then show ?thesis by (simp add: fl_def)
next
  case False
  with assms have x: "0 < x" by simp
  let ?u = "pow2 (binade x - 52)"
  have u: "0 < ?u" by (rule pow2_pos)
  have f: "fl x = of_int (round_half_even (x / ?u)) * ?u"
    using x by (simp add: fl_def Let_def)
  have "\<bar>fl x - x\<bar> = \<bar>of_int (round_half_even (x / ?u)) - x / ?u\<bar> * ?u"
  proof -
    have "fl x - x = (of_int (round_half_even (x / ?u)) - x / ?u) * ?u"
      using u by (simp add: f algebra_simps)
    then show ?thesis
      using u by (simp add: abs_mult)
  qed
  also have "\<dots> \<le> 1 / 2 * ?u"
    using round_half_even_error [of "x / ?u"] u by (simp add: mult_right_mono)
  also have "\<dots> = pow2 (binade x) / 2 ^ 53"
    by (simp add: pow2_diff pow2_52)
  also have "\<dots> \<le> x / 2 ^ 53"
    using pow2_binade_le [OF x] by (simp add: divide_right_mono)
  finally show ?thesis .
qed

lemma fl_bounds:
  assumes "0 \<le> x"
  shows "x * (1 - 1 / 2 ^ 53) \<le> fl x" "fl x \<le> x * (1 + 1 / 2 ^ 53)"
proof -
  have "x - fl x \<le> x / 2 ^ 53" "fl x - x \<le> x / 2 ^ 53"
    using fl_error [OF assms] by linarith+
  then show "x * (1 - 1 / 2 ^ 53) \<le> fl x" "fl x \<le> x * (1 + 1 / 2 ^ 53)"
    by (simp_all add: algebra_simps)
qed

lemma fl_one: "fl 1 = 1"
  by code_simp

subsection \<open>The sequence of load factors\<close>

lemma length_linspace: "length (linspace start stop num) = num"
  by (simp add: linspace_def Let_def)

lemma linspace_last:
  assumes "2 \<le> num"
  shows "last (linspace start stop num) = stop"
proof -
  have "linspace start stop num \<noteq> []"
    using assms length_linspace [of start stop num] by auto
  then have "last (linspace start stop num) = linspace start stop num ! (num - 1)"
    by (simp add: last_conv_nth length_linspace)
  then show ?thesis
    using assms by (simp add: linspace_def Let_def)
qed

lemma linspace_hd:
  assumes "1 \<le> num"
  shows "hd (linspace 0 stop num) = 0"
proof -
  have "linspace 0 stop num \<noteq> []"
    using assms length_linspace [of 0 stop num] by auto
  then have "hd (linspace 0 stop num) = linspace 0 stop num ! 0"
    by (rule hd_conv_nth)
  then show ?thesis
    using assms by (simp add: linspace_def Let_def fl_zero)
qed

lemma linspace_nth:
  assumes "2 \<le> num" "i < num - 1" "fl (fl (stop - start) / of_nat (num - 1)) \<noteq> 0"
  shows "linspace start stop num ! i =
           fl (fl (of_nat i * fl (fl (stop - start) / of_nat (num - 1))) + start)"
  using assms by (simp add: linspace_def Let_def)

lemma length_load_factors: "length (load_factors num) = num"
  by (simp add: load_factors_def length_linspace)

lemma load_factors_last:
  assumes "2 \<le> num"
  shows "last (load_factors num) = 1"
proof -
  have "linspace 0 1 num \<noteq> []"
    using assms length_linspace [of 0 1 num] by auto
  then show ?thesis
    using assms by (simp add: load_factors_def last_map linspace_last)
qed

lemma load_factors_hd:
  assumes "1 \<le> num"
  shows "hd (load_factors num) = 0"
proof -
  have "linspace 0 1 num \<noteq> []"
    using assms length_linspace [of 0 1 num] by auto
  then show ?thesis
    using assms by (simp add: load_factors_def hd_map linspace_hd)
qed

subsection \<open>One pass through the loop body\<close>

lemma before_assert_fields:
  "mu_value (before_assert P env f st) = f"
  "problem_bcs (before_assert P env f st) = new_bcs env"
  "problem (before_assert P env f st) = fst (solve P f (new_bcs env) (problem st))"
  "m_var (before_assert P env f st) = snd (solve P f (new_bcs env) (problem st))"
  "trace (before_assert P env f st) =
     trace st @ [SetMu f, SetBcs (new_bcs env), Pprint f,
                 Solve f (new_bcs env) (snd (solve P f (new_bcs env) (problem st)))]"
  by (simp_all add: before_assert_def problem_solve_def pprint_mu_def set_bcs_def set_mu_def
        emit_def split: prod.split)

lemma load_step_eq:
  "load_step P env f st =
     (let st1 = before_assert P env f st;
          reason = getConvergedReason P (problem st1)
      in if reason > 0
         then Inr (print_diagnostics P env (emit (Assert reason) st1))
         else Inl (AssertionError ''Nonlinear solver did not converge!'', emit (Assert reason) st1))"
  by (simp add: load_step_def assert_converged_def before_assert_def Let_def)


lemma solve_factors_append: "solve_factors (xs @ ys) = solve_factors xs @ solve_factors ys"
  by (induction xs rule: solve_factors.induct) auto

lemma solve_bcs_append: "solve_bcs (xs @ ys) = solve_bcs xs @ solve_bcs ys"
  by (induction xs rule: solve_bcs.induct) auto

lemma assigned_bcs_append: "assigned_bcs (xs @ ys) = assigned_bcs xs @ assigned_bcs ys"
  by (induction xs rule: assigned_bcs.induct) auto

lemma printed_append: "printed l (xs @ ys) = printed l xs @ printed l ys"
  by (induction l xs rule: printed.induct) auto

lemma last_solve_append:
  "last_solve (xs @ ys) = (case last_solve ys of None \<Rightarrow> last_solve xs | Some s \<Rightarrow> Some s)"
  by (induction xs rule: last_solve.induct) (auto split: option.splits)

subsection \<open>The whole loop\<close>

lemma load_step_Inr:
  assumes "load_step P env f st = Inr st'"
  shows "st' = print_diagnostics P env
           (emit (Assert (getConvergedReason P (problem (before_assert P env f st))))
              (before_assert P env f st))"
    and "getConvergedReason P (problem (before_assert P env f st)) > 0"
  using assms by (auto simp add: load_step_eq Let_def split: if_splits)

lemma load_step_Inr_trace:
  assumes "load_step P env f st = Inr st'"
  shows "trace st' =
     trace st @ [SetMu f, SetBcs (new_bcs env), Pprint f,
                 Solve f (new_bcs env) (m_var st'),
                 Assert (getConvergedReason P (problem st'))]
       @ diagnostics env (current_coeffs P st')"
  using load_step_Inr(1) [OF assms]
  by (simp add: print_diagnostics_def emit_def before_assert_fields current_coeffs_def)

lemma solve_factors_diagnostics [simp]: "solve_factors (diagnostics env c) = []"
  by (simp add: diagnostics_def Let_def)

lemma solve_bcs_diagnostics [simp]: "solve_bcs (diagnostics env c) = []"
  by (simp add: diagnostics_def Let_def)

lemma assigned_bcs_diagnostics [simp]: "assigned_bcs (diagnostics env c) = []"
  by (simp add: diagnostics_def Let_def)

lemma last_solve_diagnostics [simp]: "last_solve (diagnostics env c) = None"
  by (simp add: diagnostics_def Let_def)

lemma load_steps_solve_factors:
  "load_steps P env fs st = Inr st' \<Longrightarrow>
     solve_factors (trace st') = solve_factors (trace st) @ fs"
proof (induction fs arbitrary: st)
  case Nil
  then show ?case by simp
next
  case (Cons f fs)
  from Cons.prems obtain st1 where
    s1: "load_step P env f st = Inr st1" and rest: "load_steps P env fs st1 = Inr st'"
    by (auto split: sum.splits)
  have "solve_factors (trace st1) = solve_factors (trace st) @ [f]"
    by (simp add: load_step_Inr_trace [OF s1] solve_factors_append)
  with Cons.IH [OF rest] show ?case by simp
qed

lemma load_steps_converging:
  assumes "\<forall>p. getConvergedReason P p > 0"
  shows "\<exists>st'. load_steps P env fs st = Inr st'"
proof (induction fs arbitrary: st)
  case Nil
  show ?case by simp
next
  case (Cons f fs)
  have "\<exists>st1. load_step P env f st = Inr st1"
    using assms by (simp add: load_step_eq Let_def)
  then show ?case
    using Cons.IH by auto
qed


lemma asserted_append: "asserted (xs @ ys) = asserted xs @ asserted ys"
  by (induction xs rule: asserted.induct) auto

lemma asserted_diagnostics [simp]: "asserted (diagnostics env c) = []"
  by (simp add: diagnostics_def Let_def)

lemma load_step_Inl:
  assumes "load_step P env f st = Inl (err, s)"
  shows "err = AssertionError ''Nonlinear solver did not converge!''"
    and "s = emit (Assert (getConvergedReason P (problem (before_assert P env f st))))
               (before_assert P env f st)"
    and "getConvergedReason P (problem (before_assert P env f st)) \<le> 0"
  using assms by (auto simp add: load_step_eq Let_def split: if_splits)

lemma load_step_Inl_trace:
  assumes "load_step P env f st = Inl (err, s)"
  shows "trace s =
     trace st @ [SetMu f, SetBcs (new_bcs env), Pprint f,
                 Solve f (new_bcs env) (m_var s),
                 Assert (getConvergedReason P (problem s))]"
  using load_step_Inl(2) [OF assms]
  by (simp add: emit_def before_assert_fields)

lemma load_steps_shape:
  "\<exists>j\<le>length fs.
     solve_factors (trace (loop_end (load_steps P env fs st))) = solve_factors (trace st) @ take j fs
   \<and> solve_bcs (trace (loop_end (load_steps P env fs st))) = solve_bcs (trace st) @ replicate j (new_bcs env)
   \<and> assigned_bcs (trace (loop_end (load_steps P env fs st))) = assigned_bcs (trace st) @ replicate j (new_bcs env)
   \<and> length (asserted (trace (loop_end (load_steps P env fs st)))) = length (asserted (trace st)) + j
   \<and> (\<forall>st'. load_steps P env fs st = Inr st' \<longrightarrow> j = length fs)"
proof (induction fs arbitrary: st)
  case Nil
  show ?case by (simp add: loop_end_def)
next
  case (Cons f fs)
  show ?case
  proof (cases "load_step P env f st")
    case (Inl a)
    obtain err s where a: "a = (err, s)" by (cases a)
    have tr: "trace s = trace st @ [SetMu f, SetBcs (new_bcs env), Pprint f,
                 Solve f (new_bcs env) (m_var s), Assert (getConvergedReason P (problem s))]"
      using Inl a by (simp add: load_step_Inl_trace)
    have e: "loop_end (load_steps P env (f # fs) st) = s"
      using Inl a by (simp add: loop_end_def)
    have "solve_factors (trace s) = solve_factors (trace st) @ take 1 (f # fs)"
      "solve_bcs (trace s) = solve_bcs (trace st) @ replicate 1 (new_bcs env)"
      "assigned_bcs (trace s) = assigned_bcs (trace st) @ replicate 1 (new_bcs env)"
      "length (asserted (trace s)) = length (asserted (trace st)) + 1"
      by (simp_all add: tr solve_factors_append solve_bcs_append assigned_bcs_append asserted_append)
    moreover have "\<forall>st'. load_steps P env (f # fs) st \<noteq> Inr st'"
      using Inl by simp
    ultimately show ?thesis
      unfolding e by (intro exI [of _ 1]) simp
  next
    case (Inr st1)
    have tr: "trace st1 = trace st @ [SetMu f, SetBcs (new_bcs env), Pprint f,
                 Solve f (new_bcs env) (m_var st1), Assert (getConvergedReason P (problem st1))]
                 @ diagnostics env (current_coeffs P st1)"
      using Inr by (rule load_step_Inr_trace)
    have one: "solve_factors (trace st1) = solve_factors (trace st) @ [f]"
      "solve_bcs (trace st1) = solve_bcs (trace st) @ [new_bcs env]"
      "assigned_bcs (trace st1) = assigned_bcs (trace st) @ [new_bcs env]"
      "length (asserted (trace st1)) = length (asserted (trace st)) + 1"
      by (simp_all add: tr solve_factors_append solve_bcs_append assigned_bcs_append asserted_append)
    have e: "load_steps P env (f # fs) st = load_steps P env fs st1"
      using Inr by simp
    from Cons.IH [of st1] obtain j where j: "j \<le> length fs"
      "solve_factors (trace (loop_end (load_steps P env fs st1))) = solve_factors (trace st1) @ take j fs"
      "solve_bcs (trace (loop_end (load_steps P env fs st1))) = solve_bcs (trace st1) @ replicate j (new_bcs env)"
      "assigned_bcs (trace (loop_end (load_steps P env fs st1))) = assigned_bcs (trace st1) @ replicate j (new_bcs env)"
      "length (asserted (trace (loop_end (load_steps P env fs st1)))) = length (asserted (trace st1)) + j"
      "\<forall>st'. load_steps P env fs st1 = Inr st' \<longrightarrow> j = length fs"
      by blast
    show ?thesis
      unfolding e using j one by (intro exI [of _ "Suc j"]) simp
  qed
qed

subsection \<open>The script around the loop\<close>

lemma the_env_fields:
  "forms (the_env mesh dofs) = beam_forms mesh"
  "the_mesh (the_env mesh dofs) = mesh"
  "u_left (the_env mesh dofs) = Function_new"
  "w_left (the_env mesh dofs) = Function_new"
  "r_left (the_env mesh dofs) = Function_new"
  by (simp_all add: the_env_def split: prod.split)

lemma initial_state_trace:
  "solve_factors (trace (initial_state P mesh p0)) = []"
  "solve_bcs (trace (initial_state P mesh p0)) = []"
  "assigned_bcs (trace (initial_state P mesh p0)) = []"
  "asserted (trace (initial_state P mesh p0)) = []"
  "last_solve (trace (initial_state P mesh p0)) = None"
  "printed ''L0'' (trace (initial_state P mesh p0)) = []"
  "printed ''kappa0'' (trace (initial_state P mesh p0)) = []"
  by (simp_all add: initial_state_def split: prod.split)

lemma script_end_beam_static:
  "script_end (beam_static P mesh dofs p0) =
     loop_end (process_load_steps (200 + 1) P (the_env mesh dofs) (initial_state P mesh p0))"
  by (simp add: beam_static_def script_end_def loop_end_def extract_solution_def
        split: sum.split list.split prod.split)

lemma beam_static_Inr:
  assumes "beam_static P mesh dofs p0 = Inr (sol, st')"
  shows "process_load_steps (200 + 1) P (the_env mesh dofs) (initial_state P mesh p0) = Inr st'"
    and "m_var st' = [fst sol, fst (snd sol), snd (snd sol)]"
  using assms
  by (auto simp add: beam_static_def extract_solution_def split: sum.splits list.splits)

subsection \<open>What the diagnostics print\<close>

lemma printed_diagnostics:
  "printed ''L0'' (diagnostics env c) =
     [assemble_scalar (\<lambda>x. sqrt ((x_lambda_0 (forms env) c x)^2)) (dx (the_mesh env))]"
  "printed ''kappa0'' (diagnostics env c) =
     [assemble_scalar (x_kappa0 (forms env) c) (dx (the_mesh env))]"
  by (simp_all add: diagnostics_def Let_def)

lemma load_steps_printed:
  assumes "\<And>c. printed l (diagnostics env c) = [V]"
  shows "\<exists>j\<le>length fs.
     printed l (trace (loop_end (load_steps P env fs st))) = printed l (trace st) @ replicate j V
   \<and> (\<forall>st'. load_steps P env fs st = Inr st' \<longrightarrow> j = length fs)"
proof (induction fs arbitrary: st)
  case Nil
  show ?case by (simp add: loop_end_def)
next
  case (Cons f fs)
  show ?case
  proof (cases "load_step P env f st")
    case (Inl a)
    obtain err s where a: "a = (err, s)" by (cases a)
    have "printed l (trace s) = printed l (trace st)"
      using Inl a by (simp add: load_step_Inl_trace printed_append)
    then show ?thesis
      using Inl a by (intro exI [of _ 0]) (simp add: loop_end_def)
  next
    case (Inr st1)
    have one: "printed l (trace st1) = printed l (trace st) @ [V]"
      by (simp add: load_step_Inr_trace [OF Inr] printed_append assms)
    have e: "load_steps P env (f # fs) st = load_steps P env fs st1"
      using Inr by simp
    from Cons.IH [of st1] obtain j where j: "j \<le> length fs"
      "printed l (trace (loop_end (load_steps P env fs st1))) = printed l (trace st1) @ replicate j V"
      "\<forall>st'. load_steps P env fs st1 = Inr st' \<longrightarrow> j = length fs"
      by blast
    show ?thesis
      unfolding e using j one by (intro exI [of _ "Suc j"]) simp
  qed
qed

lemma dot3_self_nonneg: "0 \<le> dot3 v v"
  by (cases v) (simp add: dot3_def)

lemma beam_forms_lambda_0:
  "x_lambda_0 (beam_forms mesh) c x = sqrt (dot3 (GRAD_x0 mesh x) (GRAD_x0 mesh x))"
  by (simp add: beam_forms_def Let_def)

lemma beam_forms_kappa0: "x_kappa0 (beam_forms mesh) c x = - 2 * pi"
  by (simp add: beam_forms_def Let_def)

lemma assemble_scalar_const:
  "assemble_scalar (\<lambda>x. a) ms = a * assemble_scalar (\<lambda>x. 1) ms"
  by (induction ms) (auto simp add: assemble_scalar_def algebra_simps)

lemma L0_value:
  "assemble_scalar (\<lambda>x. sqrt ((x_lambda_0 (beam_forms mesh) c x)^2)) (dx mesh) =
   assemble_scalar (\<lambda>x. sqrt (dot3 (GRAD_x0 mesh x) (GRAD_x0 mesh x))) (dx mesh)"
  by (simp add: beam_forms_lambda_0 dot3_self_nonneg)

lemma kappa0_value:
  "assemble_scalar (x_kappa0 (beam_forms mesh) c) (dx mesh) =
   - 2 * pi * assemble_scalar (\<lambda>x. 1) (dx mesh)"
proof -
  have "x_kappa0 (beam_forms mesh) c = (\<lambda>x. - 2 * pi)"
    by (rule ext) (rule beam_forms_kappa0)
  then show ?thesis
    using assemble_scalar_const [of "- 2 * pi" "dx mesh"] by simp
qed

lemma assemble_scalar_zero: "assemble_scalar (\<lambda>x. 0) ms = 0"
  by (induction ms) (auto simp add: assemble_scalar_def)

lemma load_steps_last_solve:
  assumes "load_steps P env fs st = Inr st'" "fs \<noteq> []"
  shows "last_solve (trace st') = Some (last fs, m_var st')
       \<and> (\<exists>p. m_var st' = snd (solve P (last fs) (new_bcs env) p))"
  using assms
proof (induction fs arbitrary: st)
  case Nil
  then show ?case by simp
next
  case (Cons f fs)
  from Cons.prems(1) obtain st1 where
    s1: "load_step P env f st = Inr st1" and rest: "load_steps P env fs st1 = Inr st'"
    by (auto split: sum.splits)
  show ?case
  proof (cases "fs = []")
    case True
    then have e: "st' = st1"
      using rest by simp
    have m: "m_var st1 = snd (solve P f (new_bcs env) (problem st))"
      using load_step_Inr(1) [OF s1]
      by (simp add: print_diagnostics_def emit_def before_assert_fields)
    have "last_solve (trace st1) = Some (f, m_var st1)"
      by (simp add: load_step_Inr_trace [OF s1] last_solve_append)
    with m e True show ?thesis
      by auto
  next
    case False
    with Cons.IH [OF rest] show ?thesis
      by simp
  qed
qed

lemma beam_static_converging_example:
  "\<exists>sol st'. beam_static converging_problem example_mesh example_dofs 0 = Inr (sol, st')"
proof -
  let ?P = converging_problem
  let ?env = "the_env example_mesh example_dofs"
  let ?st0 = "initial_state converging_problem example_mesh 0"
  have c: "\<forall>p. getConvergedReason ?P p > 0"
    by (simp add: converging_problem_def)
  from load_steps_converging [OF c, of ?env "load_factors (200 + 1)" ?st0] obtain st' where
    run: "load_steps ?P ?env (load_factors (200 + 1)) ?st0 = Inr st'"
    by blast
  have ne: "load_factors (200 + 1) \<noteq> []"
    using length_load_factors [of "200 + 1"] by auto
  from load_steps_last_solve [OF run ne] obtain p where
    "m_var st' = snd (solve ?P (last (load_factors (200 + 1))) (new_bcs ?env) p)"
    by blast
  then have m: "m_var st' = [Function_new, Function_new, Function_new]"
    by (simp add: converging_problem_def)
  have "beam_static ?P example_mesh example_dofs 0 =
      Inr ((Function_new, Function_new, Function_new), st')"
    using run m by (simp add: beam_static_def process_load_steps_def extract_solution_def)
  then show ?thesis
    by blast
qed

subsection \<open>The 201 load factors of the script\<close>

lemma step_201:
  "fl (fl (1 - 0) / of_nat (201 - 1)) = fl (1 / 200)"
  "1 / 200 * (1 - 1 / 2 ^ 53) \<le> fl (1 / 200)"
  "fl (1 / 200) \<le> 1 / 200 * (1 + 1 / 2 ^ 53)"
  "fl (1 / 200) \<noteq> 0"
proof -
  show "fl (fl (1 - 0) / of_nat (201 - 1)) = fl (1 / 200)"
    by (simp add: fl_one)
  have nn: "(0::rat) \<le> 1 / 200"
    by simp
  show lo: "1 / 200 * (1 - 1 / 2 ^ 53) \<le> fl (1 / 200)"
    by (rule fl_bounds(1) [OF nn])
  show "fl (1 / 200) \<le> 1 / 200 * (1 + 1 / 2 ^ 53)"
    by (rule fl_bounds(2) [OF nn])
  from lo show "fl (1 / 200) \<noteq> 0"
    by auto
qed

lemma factor_201_nth:
  assumes "i < 200"
  shows "linspace 0 1 201 ! i = fl (fl (of_nat i * fl (1 / 200)))"
proof -
  have "linspace 0 1 201 ! i =
      fl (fl (of_nat i * fl (fl (1 - 0) / of_nat (201 - 1))) + 0)"
    using assms by (intro linspace_nth) (simp_all add: step_201 fl_one)
  then show ?thesis
    by (simp add: step_201 fl_one)
qed

lemma factor_201_bounds:
  assumes "i < 200"
  shows "of_nat i / 200 * (1 - 1 / 2 ^ 53) ^ 3 \<le> linspace 0 1 201 ! i"
    and "linspace 0 1 201 ! i \<le> of_nat i / 200 * (1 + 1 / 2 ^ 53) ^ 3"
proof -
  let ?a = "1 - 1 / 2 ^ 53 :: rat"
  let ?b = "1 + 1 / 2 ^ 53 :: rat"
  let ?s = "fl (1 / 200)"
  let ?p = "of_nat i * ?s"
  have a: "0 \<le> ?a" and b: "0 \<le> ?b"
    by simp_all
  have i: "(0::rat) \<le> of_nat i"
    by simp
  have s0: "0 \<le> ?s"
    using step_201(2) by simp
  have p0: "0 \<le> ?p"
    using i s0 by (rule mult_nonneg_nonneg)
  have y0: "0 \<le> fl ?p"
    using fl_bounds(1) [OF p0] a p0 mult_nonneg_nonneg [of ?p ?a] by linarith
  have p1: "of_nat i * (1 / 200 * ?a) \<le> ?p"
    using step_201(2) i by (rule mult_left_mono)
  have p2: "?p \<le> of_nat i * (1 / 200 * ?b)"
    using step_201(3) i by (rule mult_left_mono)
  have y1: "of_nat i * (1 / 200 * ?a) * ?a \<le> fl ?p"
    using mult_right_mono [OF p1 a] fl_bounds(1) [OF p0] by linarith
  have y2: "fl ?p \<le> of_nat i * (1 / 200 * ?b) * ?b"
    using mult_right_mono [OF p2 b] fl_bounds(2) [OF p0] by linarith
  have z1: "of_nat i * (1 / 200 * ?a) * ?a * ?a \<le> fl (fl ?p)"
    using mult_right_mono [OF y1 a] fl_bounds(1) [OF y0] by linarith
  have z2: "fl (fl ?p) \<le> of_nat i * (1 / 200 * ?b) * ?b * ?b"
    using mult_right_mono [OF y2 b] fl_bounds(2) [OF y0] by linarith
  from z1 show "of_nat i / 200 * ?a ^ 3 \<le> linspace 0 1 201 ! i"
    by (simp add: factor_201_nth [OF assms] power3_eq_cube algebra_simps)
  from z2 show "linspace 0 1 201 ! i \<le> of_nat i / 200 * ?b ^ 3"
    by (simp add: factor_201_nth [OF assms] power3_eq_cube algebra_simps)
qed

lemma factor_201_last: "linspace 0 1 201 ! 200 = 1"
  by (simp add: linspace_def Let_def)

lemma rounding_constants:
  "(1::rat) - 1 / 2 ^ 51 \<le> (1 - 1 / 2 ^ 53) ^ 3"
  "(1 + 1 / 2 ^ 53) ^ 3 \<le> (1::rat) + 1 / 2 ^ 51"
  "199 * (1 + 1 / 2 ^ 53) ^ 3 < (200::rat)"
  "198 * ((1 + 1 / 2 ^ 53) ^ 3 - (1 - 1 / 2 ^ 53) ^ 3) < ((1::rat) - 1 / 2 ^ 53) ^ 3"
  "(1 - 1 / 2 ^ 53) ^ 3 \<le> ((1::rat) + 1 / 2 ^ 53) ^ 3"
  by (simp_all add: power3_eq_cube)

lemma factor_201_close:
  assumes "i < 201"
  shows "\<bar>linspace 0 1 201 ! i - of_nat i / 200\<bar> \<le> 1 / 2 ^ 51"
proof (cases "i = 200")
  case True
  then show ?thesis
    by (simp add: factor_201_last)
next
  case False
  with assms have i: "i < 200"
    by simp
  define x where "x = linspace 0 1 201 ! i"
  define c :: rat where "c = of_nat i / 200"
  define a :: rat where "a = (1 - 1 / 2 ^ 53) ^ 3"
  define b :: rat where "b = (1 + 1 / 2 ^ 53) ^ 3"
  have c: "0 \<le> c" "c \<le> 1"
    using i by (simp_all add: c_def)
  have lo: "c * a \<le> x" and hi: "x \<le> c * b"
    using factor_201_bounds [OF i] by (simp_all add: x_def c_def a_def b_def)
  have k1: "1 - 1 / 2 ^ 51 \<le> a" and k2: "b \<le> 1 + 1 / 2 ^ 51"
    using rounding_constants(1,2) by (simp_all add: a_def b_def)
  have "c * (1 - 1 / 2 ^ 51) \<le> c * a"
    using k1 c(1) by (rule mult_left_mono)
  moreover have "c * b \<le> c * (1 + 1 / 2 ^ 51)"
    using k2 c(1) by (rule mult_left_mono)
  moreover have "c * (1 / 2 ^ 51) \<le> 1 * (1 / 2 ^ 51)"
    using c(2) by (rule mult_right_mono) simp
  ultimately have "x - c \<le> 1 / 2 ^ 51" "c - x \<le> 1 / 2 ^ 51"
    using lo hi by (simp_all add: algebra_simps)
  then have "\<bar>x - c\<bar> \<le> 1 / 2 ^ 51"
    by linarith
  then show ?thesis
    by (simp add: x_def c_def)
qed

lemma factor_201_less:
  assumes "i < j" "j < 201"
  shows "linspace 0 1 201 ! i < linspace 0 1 201 ! j"
proof -
  define a :: rat where "a = (1 - 1 / 2 ^ 53) ^ 3"
  define b :: rat where "b = (1 + 1 / 2 ^ 53) ^ 3"
  define n :: rat where "n = of_nat i"
  have k: "199 * b < 200" "198 * (b - a) < a" "a \<le> b"
    using rounding_constants(3,4,5) by (simp_all add: a_def b_def)
  have a0: "0 < a"
    by (simp add: a_def)
  have i: "i < 200"
    using assms by simp
  have n0: "0 \<le> n"
    by (simp add: n_def)
  have hi: "linspace 0 1 201 ! i \<le> n / 200 * b"
    using factor_201_bounds(2) [OF i] by (simp add: n_def b_def)
  show ?thesis
  proof (cases "j = 200")
    case True
    have "n \<le> 199"
      using i by (simp add: n_def)
    moreover have "0 \<le> b"
      using a0 k(3) by simp
    ultimately have "n * b \<le> 199 * b"
      by (rule mult_right_mono)
    with k(1) have "n / 200 * b < 1"
      by simp
    with hi True show ?thesis
      by (simp add: factor_201_last)
  next
    case False
    with assms have j: "j < 200"
      by simp
    define m :: rat where "m = of_nat j"
    have lo: "m / 200 * a \<le> linspace 0 1 201 ! j"
      using factor_201_bounds(1) [OF j] by (simp add: m_def a_def)
    have nm: "n + 1 \<le> m"
      using assms(1) by (simp add: n_def m_def of_nat_Suc [symmetric] del: of_nat_Suc)
    have n198: "n \<le> 198"
      using assms(1) j by (simp add: n_def)
    have "n * (b - a) \<le> 198 * (b - a)"
      using n198 k(3) by (intro mult_right_mono) simp_all
    with k(2) have "n * b < (n + 1) * a"
      by (simp add: algebra_simps)
    also have "\<dots> \<le> m * a"
      using nm a0 by (intro mult_right_mono) simp_all
    finally have "n / 200 * b < m / 200 * a"
      by simp
    with hi lo show ?thesis
      by linarith
  qed
qed

lemma linspace_201_sorted: "sorted_wrt (<) (linspace 0 1 201)"
  by (simp add: sorted_wrt_iff_nth_less length_linspace factor_201_less)

lemma load_factors_201_sorted: "sorted_wrt (<) (load_factors 201)"
  using linspace_201_sorted
  by (simp add: load_factors_def sorted_wrt_map of_rat_less)

lemma load_factors_201_close:
  assumes "i < 201"
  shows "\<bar>load_factors 201 ! i - real i / 200\<bar> \<le> 1 / 2 ^ 51"
proof -
  have "load_factors 201 ! i - real i / 200 = real_of_rat (linspace 0 1 201 ! i - of_nat i / 200)"
    using assms by (simp add: load_factors_def length_linspace of_rat_diff of_rat_divide)
  then have "\<bar>load_factors 201 ! i - real i / 200\<bar> =
      real_of_rat \<bar>linspace 0 1 201 ! i - of_nat i / 200\<bar>"
    by simp
  also have "\<dots> \<le> real_of_rat (1 / 2 ^ 51)"
    using factor_201_close [OF assms] by (simp only: of_rat_less_eq)
  finally show ?thesis
    by (simp add: of_rat_divide of_rat_power)
qed


subsection \<open>The calls of the solver\<close>

lemma length_solves: "length (solves P bcs p fs) = length fs"
  by (induction fs arbitrary: p) simp_all

lemma solve_returns_append: "solve_returns (xs @ ys) = solve_returns xs @ solve_returns ys"
  by (induction xs rule: solve_returns.induct) auto

lemma solve_returns_diagnostics [simp]: "solve_returns (diagnostics env c) = []"
  by (simp add: diagnostics_def Let_def)

lemma load_step_Inr_problem:
  assumes "load_step P env f st = Inr st'"
  shows "problem st' = fst (solve P f (new_bcs env) (problem st))"
    and "m_var st' = snd (solve P f (new_bcs env) (problem st))"
  using load_step_Inr(1) [OF assms]
  by (simp_all add: print_diagnostics_def emit_def before_assert_fields)

lemma load_steps_Inr_iff:
  "(\<exists>st'. load_steps P env fs st = Inr st') \<longleftrightarrow>
   list_all (\<lambda>r. 0 < getConvergedReason P (fst r)) (solves P (new_bcs env) (problem st) fs)"
proof (induction fs arbitrary: st)
  case Nil
  show ?case by simp
next
  case (Cons f fs)
  show ?case
  proof (cases "0 < getConvergedReason P (fst (solve P f (new_bcs env) (problem st)))")
    case True
    then obtain st1 where s1: "load_step P env f st = Inr st1"
      by (simp add: load_step_eq Let_def before_assert_fields)
    have p1: "problem st1 = fst (solve P f (new_bcs env) (problem st))"
      by (rule load_step_Inr_problem(1) [OF s1])
    show ?thesis
      using Cons.IH [of st1] True by (simp add: s1 p1)
  next
    case False
    then have "\<exists>e. load_step P env f st = Inl e"
      by (simp add: load_step_eq Let_def before_assert_fields)
    with False show ?thesis
      by auto
  qed
qed

lemma load_steps_solves:
  assumes "load_steps P env fs st = Inr st'"
  shows "problem st' = last (problem st # map fst (solves P (new_bcs env) (problem st) fs))"
    and "solve_returns (trace st') =
           solve_returns (trace st) @ map snd (solves P (new_bcs env) (problem st) fs)"
  using assms
proof (induction fs arbitrary: st)
  case Nil
  {
    case 1 then show ?case by simp
  next
    case 2 then show ?case by simp
  }
next
  case (Cons f fs)
  {
    case 1
    then obtain st1 where
      s1: "load_step P env f st = Inr st1" and rest: "load_steps P env fs st1 = Inr st'"
      by (auto split: sum.splits)
    have p1: "problem st1 = fst (solve P f (new_bcs env) (problem st))"
      by (rule load_step_Inr_problem(1) [OF s1])
    from Cons.IH(1) [OF rest] show ?case
      by (simp add: p1)
  next
    case 2
    then obtain st1 where
      s1: "load_step P env f st = Inr st1" and rest: "load_steps P env fs st1 = Inr st'"
      by (auto split: sum.splits)
    have p1: "problem st1 = fst (solve P f (new_bcs env) (problem st))"
      by (rule load_step_Inr_problem(1) [OF s1])
    have r1: "solve_returns (trace st1) =
        solve_returns (trace st) @ [snd (solve P f (new_bcs env) (problem st))]"
      by (simp add: load_step_Inr_trace [OF s1] solve_returns_append
            load_step_Inr_problem(2) [OF s1])
    from Cons.IH(2) [OF rest] show ?case
      by (simp add: p1 r1)
  }
qed

lemma fresh_problem_counts:
  "last (p # map fst (solves fresh_problem bcs p fs)) = p + length fs"
  by (induction fs arbitrary: p) (simp_all add: fresh_problem_def)

lemma fresh_problem_converges:
  "list_all (\<lambda>r. 0 < getConvergedReason fresh_problem (fst r)) (solves fresh_problem bcs p fs)"
  by (induction fs arbitrary: p) (simp_all add: fresh_problem_def)

section \<open>The claims\<close>






text \<open>
  C3, as stated, fails: the step count is not configurable. The script has no count to
  set; the literal \<^verbatim>\<open>200 + 1\<close> of line 224 fixes it, and a completed run of the script has made
  201 solves, so a run with, say, one step and one solve does not exist.
\<close>

theorem step_count_is_fixed:
  "length (solve_factors (trace (script_end
      (beam_static converging_problem example_mesh example_dofs 0)))) = 201
   \<and> length (solve_factors (trace (script_end
      (beam_static converging_problem example_mesh example_dofs 0)))) \<noteq> 1"
proof -
  from beam_static_converging_example obtain sol st' where
    run: "beam_static converging_problem example_mesh example_dofs 0 = Inr (sol, st')"
    by blast
  have "load_steps converging_problem (the_env example_mesh example_dofs) (load_factors (200 + 1))
      (initial_state converging_problem example_mesh 0) = Inr st'"
    using beam_static_Inr(1) [OF run] by (simp only: process_load_steps_def)
  from load_steps_solve_factors [OF this]
  have "length (solve_factors (trace st')) = 201"
    by (simp add: initial_state_trace length_load_factors)
  then show ?thesis
    using run by (simp add: script_end_def)
qed

text \<open>
  C3, amended. The count of the script is fixed at 201: a completed run has made 201 solves,
  at the load factors of C1 (strictly increasing from 0 to 1, within \<open>2^(-51)\<close> of \<open>i / 200\<close>).
  The loop itself does not depend on the count: over any sequence of \<open>n\<close> load factors it
  completes exactly when each solve in turn leaves a positive reason, and then it has
  called the solver exactly \<open>n\<close> times, once per factor in order, each call starting from the
  problem the previous call left. \<^verbatim>\<open>np.linspace(0, 1, n)\<close> has \<open>n\<close> values, the first 0 for
  \<open>n \<ge> 1\<close> and the last 1 for \<open>n \<ge> 2\<close>.
\<close>

theorem loop_solves_once_per_factor:
  "((\<exists>st'. load_steps P env fs st = Inr st') \<longleftrightarrow>
      list_all (\<lambda>r. 0 < getConvergedReason P (fst r)) (solves P (new_bcs env) (problem st) fs))
   \<and> (\<forall>st'. load_steps P env fs st = Inr st' \<longrightarrow>
         solve_factors (trace st') = solve_factors (trace st) @ fs
       \<and> solve_returns (trace st') =
           solve_returns (trace st) @ map snd (solves P (new_bcs env) (problem st) fs)
       \<and> problem st' = last (problem st # map fst (solves P (new_bcs env) (problem st) fs))
       \<and> length (solves P (new_bcs env) (problem st) fs) = length fs)
   \<and> length (load_factors n) = n
   \<and> (1 \<le> n \<longrightarrow> hd (load_factors n) = 0)
   \<and> (2 \<le> n \<longrightarrow> last (load_factors n) = 1)
   \<and> sorted_wrt (<) (load_factors (200 + 1))
   \<and> (\<forall>i<201. \<bar>load_factors (200 + 1) ! i - real i / 200\<bar> \<le> 1 / 2 ^ 51)
   \<and> (\<forall>sol st'. beam_static P mesh dofs p0 = Inr (sol, st') \<longrightarrow>
         solve_factors (trace st') = load_factors (200 + 1)
       \<and> length (solve_factors (trace st')) = 201)"
proof -
  have iff: "(\<exists>st'. load_steps P env fs st = Inr st') \<longleftrightarrow>
      list_all (\<lambda>r. 0 < getConvergedReason P (fst r)) (solves P (new_bcs env) (problem st) fs)"
    by (rule load_steps_Inr_iff)
  have run: "solve_factors (trace st') = solve_factors (trace st) @ fs
       \<and> solve_returns (trace st') =
           solve_returns (trace st) @ map snd (solves P (new_bcs env) (problem st) fs)
       \<and> problem st' = last (problem st # map fst (solves P (new_bcs env) (problem st) fs))
       \<and> length (solves P (new_bcs env) (problem st) fs) = length fs"
    if "load_steps P env fs st = Inr st'" for st'
    using load_steps_solve_factors [OF that] load_steps_solves [OF that]
    by (simp add: length_solves)
  have len: "length (load_factors n) = n"
    by (rule length_load_factors)
  have h: "1 \<le> n \<longrightarrow> hd (load_factors n) = 0"
    by (simp add: load_factors_hd)
  have l: "2 \<le> n \<longrightarrow> last (load_factors n) = 1"
    by (simp add: load_factors_last)
  have srt: "sorted_wrt (<) (load_factors (200 + 1))"
    using load_factors_201_sorted by simp
  have cl: "\<forall>i<201. \<bar>load_factors (200 + 1) ! i - real i / 200\<bar> \<le> 1 / 2 ^ 51"
    using load_factors_201_close by simp
  have script: "solve_factors (trace st') = load_factors (200 + 1)
       \<and> length (solve_factors (trace st')) = 201"
    if "beam_static P mesh dofs p0 = Inr (sol, st')" for sol st'
  proof -
    have "load_steps P (the_env mesh dofs) (load_factors (200 + 1)) (initial_state P mesh p0) = Inr st'"
      using beam_static_Inr(1) [OF that] by (simp only: process_load_steps_def)
    from load_steps_solve_factors [OF this] show ?thesis
      by (simp add: initial_state_trace length_load_factors)
  qed
  from iff run len h l srt cl script show ?thesis
    by blast
qed

theorem loop_solves_once_per_factor_witness:
  "list_all (\<lambda>r. 0 < getConvergedReason fresh_problem (fst r))
     (solves fresh_problem (new_bcs (the_env example_mesh example_dofs))
        (problem (initial_state fresh_problem example_mesh 0)) [0, 1 / 2, 1])
   \<and> (\<exists>st'. load_steps fresh_problem (the_env example_mesh example_dofs) [0, 1 / 2, 1]
                (initial_state fresh_problem example_mesh 0) = Inr st'
             \<and> solve_factors (trace st') = [0, 1 / 2, 1]
             \<and> problem st' = 3)
   \<and> (1::nat) \<le> 3 \<and> hd (load_factors 3) = 0
   \<and> (2::nat) \<le> 3 \<and> last (load_factors 3) = 1
   \<and> (\<exists>sol st'. beam_static converging_problem example_mesh example_dofs 0 = Inr (sol, st')
             \<and> length (solve_factors (trace st')) = 201)"
proof -
  let ?P = fresh_problem
  let ?env = "the_env example_mesh example_dofs"
  let ?st0 = "initial_state fresh_problem example_mesh 0"
  let ?fs = "[0, 1 / 2, 1] :: real list"
  note T = loop_solves_once_per_factor [of ?P ?env ?fs ?st0 3 example_mesh example_dofs 0]
  note U = loop_solves_once_per_factor [of converging_problem ?env ?fs
      "initial_state converging_problem example_mesh 0" 3 example_mesh example_dofs 0]
  have c: "list_all (\<lambda>r. 0 < getConvergedReason ?P (fst r)) (solves ?P (new_bcs ?env) (problem ?st0) ?fs)"
    by (rule fresh_problem_converges)
  from T c obtain st' where run: "load_steps ?P ?env ?fs ?st0 = Inr st'"
    by blast
  have p0: "problem ?st0 = 0"
    by (simp add: initial_state_def fresh_problem_def)
  from T run have "solve_factors (trace st') = solve_factors (trace ?st0) @ ?fs"
    by blast
  then have a: "solve_factors (trace st') = ?fs"
    by (simp add: initial_state_trace)
  from T run have "problem st' = last (problem ?st0 # map fst (solves ?P (new_bcs ?env) (problem ?st0) ?fs))"
    by blast
  then have "problem st' = last (0 # map fst (solves ?P (new_bcs ?env) 0 ?fs))"
    by (simp only: p0)
  also have "\<dots> = 0 + length ?fs"
    by (rule fresh_problem_counts)
  finally have b: "problem st' = 3"
    by simp
  have n: "(1::nat) \<le> 3" "(2::nat) \<le> 3"
    by simp_all
  from T n have hl: "hd (load_factors 3) = 0" "last (load_factors 3) = 1"
    by blast+
  from beam_static_converging_example obtain sol st2 where
    s: "beam_static converging_problem example_mesh example_dofs 0 = Inr (sol, st2)"
    by blast
  from U s have "length (solve_factors (trace st2)) = 201"
    by blast
  with c run a b n hl s show ?thesis
    by blast
qed

text \<open>
  C4. One pass through the loop body, from any state: \<^verbatim>\<open>\<mu>.value\<close> is set once, to the current
  factor; then \<^verbatim>\<open>problem.bcs\<close> is rebuilt; then the factor is printed; then the solver is
  called (seeing that factor and those conditions); then the assertion reads the reason.
  The eight diagnostic prints follow only when the reason is positive; otherwise the pass
  ends at the assertion with the \<^verbatim>\<open>AssertionError\<close>.
\<close>

theorem loop_body_order:
  "load_step P env f st =
     (let st1 = before_assert P env f st;
          reason = getConvergedReason P (problem st1);
          evs = [SetMu f, SetBcs (new_bcs env), Pprint f,
                 Solve f (new_bcs env) (snd (solve P f (new_bcs env) (problem st))),
                 Assert reason]
      in if reason > 0
         then Inr (st1\<lparr>trace := trace st @ evs @ diagnostics env (current_coeffs P st1)\<rparr>)
         else Inl (AssertionError ''Nonlinear solver did not converge!'',
                   st1\<lparr>trace := trace st @ evs\<rparr>))
   \<and> mu_value (before_assert P env f st) = f
   \<and> problem_bcs (before_assert P env f st) = new_bcs env
   \<and> problem (before_assert P env f st) = fst (solve P f (new_bcs env) (problem st))
   \<and> m_var (before_assert P env f st) = snd (solve P f (new_bcs env) (problem st))
   \<and> (\<exists>v1 v2 v3 v4 v5 v6 v7 v8. diagnostics env c =
         [Print ''L0'' v1, Print ''L'' v2, Print ''ep'' v3, Print ''e'' v4, Print ''g'' v5,
          Print ''k'' v6, Print ''kappa'' v7, Print ''kappa0'' v8])"
proof -
  have a: "load_step P env f st =
     (let st1 = before_assert P env f st;
          reason = getConvergedReason P (problem st1);
          evs = [SetMu f, SetBcs (new_bcs env), Pprint f,
                 Solve f (new_bcs env) (snd (solve P f (new_bcs env) (problem st))),
                 Assert reason]
      in if reason > 0
         then Inr (st1\<lparr>trace := trace st @ evs @ diagnostics env (current_coeffs P st1)\<rparr>)
         else Inl (AssertionError ''Nonlinear solver did not converge!'',
                   st1\<lparr>trace := trace st @ evs\<rparr>))"
    by (simp add: load_step_eq Let_def print_diagnostics_def emit_def before_assert_fields
          current_coeffs_def)
  have d: "\<exists>v1 v2 v3 v4 v5 v6 v7 v8. diagnostics env c =
         [Print ''L0'' v1, Print ''L'' v2, Print ''ep'' v3, Print ''e'' v4, Print ''g'' v5,
          Print ''k'' v6, Print ''kappa'' v7, Print ''kappa0'' v8]"
    by (simp add: diagnostics_def Let_def)
  from a d show ?thesis
    by (simp only: before_assert_fields simp_thms)
qed

text \<open>
  C5. Every pass through the loop body assigns \<^verbatim>\<open>problem.bcs\<close> anew, and what it assigns, and
  what each solve sees, is the same list \<open>new_bcs env\<close> of dof sets and prescribed functions
  in every pass: it does not depend on the load factor. In a completed run of the script
  that is 201 assignments and 201 solves with identical boundary conditions.
\<close>

theorem boundary_conditions_constant:
  "(\<exists>j\<le>length fs.
       assigned_bcs (trace (loop_end (load_steps P env fs st))) =
         assigned_bcs (trace st) @ replicate j (new_bcs env)
     \<and> solve_bcs (trace (loop_end (load_steps P env fs st))) =
         solve_bcs (trace st) @ replicate j (new_bcs env)
     \<and> (\<forall>st'. load_steps P env fs st = Inr st' \<longrightarrow> j = length fs))
   \<and> (\<forall>sol st'. beam_static P mesh dofs p0 = Inr (sol, st') \<longrightarrow>
         assigned_bcs (trace st') = replicate 201 (new_bcs (the_env mesh dofs))
       \<and> solve_bcs (trace st') = replicate 201 (new_bcs (the_env mesh dofs)))
   \<and> (\<forall>f g s. problem_bcs (set_bcs env (set_mu f s)) = problem_bcs (set_bcs env (set_mu g s)))"
proof -
  have a: "\<exists>j\<le>length fs.
       assigned_bcs (trace (loop_end (load_steps P env fs st))) =
         assigned_bcs (trace st) @ replicate j (new_bcs env)
     \<and> solve_bcs (trace (loop_end (load_steps P env fs st))) =
         solve_bcs (trace st) @ replicate j (new_bcs env)
     \<and> (\<forall>st'. load_steps P env fs st = Inr st' \<longrightarrow> j = length fs)"
    using load_steps_shape [of fs P env st] by blast
  have b: "assigned_bcs (trace st') = replicate 201 (new_bcs (the_env mesh dofs))
       \<and> solve_bcs (trace st') = replicate 201 (new_bcs (the_env mesh dofs))"
    if "beam_static P mesh dofs p0 = Inr (sol, st')" for sol st'
  proof -
    let ?env = "the_env mesh dofs"
    let ?st0 = "initial_state P mesh p0"
    let ?fs = "load_factors (200 + 1)"
    have run: "load_steps P ?env ?fs ?st0 = Inr st'"
      using beam_static_Inr(1) [OF that] by (simp add: process_load_steps_def)
    from load_steps_shape [of ?fs P ?env ?st0] obtain j where
      "assigned_bcs (trace (loop_end (load_steps P ?env ?fs ?st0))) =
         assigned_bcs (trace ?st0) @ replicate j (new_bcs ?env)"
      "solve_bcs (trace (loop_end (load_steps P ?env ?fs ?st0))) =
         solve_bcs (trace ?st0) @ replicate j (new_bcs ?env)"
      "\<forall>st'. load_steps P ?env ?fs ?st0 = Inr st' \<longrightarrow> j = length ?fs"
      by blast
    with run show ?thesis
      by (simp add: loop_end_def initial_state_trace length_load_factors)
  qed
  have c: "\<forall>f g s. problem_bcs (set_bcs env (set_mu f s)) = problem_bcs (set_bcs env (set_mu g s))"
    by (simp add: set_bcs_def set_mu_def emit_def)
  from a b c show ?thesis
    by blast
qed

theorem boundary_conditions_constant_witness:
  "\<exists>sol st'. beam_static converging_problem example_mesh example_dofs 0 = Inr (sol, st')
     \<and> assigned_bcs (trace st') = replicate 201 (new_bcs (the_env example_mesh example_dofs))
     \<and> solve_bcs (trace st') = replicate 201 (new_bcs (the_env example_mesh example_dofs))"
proof -
  from beam_static_converging_example obtain sol st' where
    run: "beam_static converging_problem example_mesh example_dofs 0 = Inr (sol, st')"
    by blast
  note T = boundary_conditions_constant [of "[]" converging_problem
      "the_env example_mesh example_dofs" "initial_state converging_problem example_mesh 0"
      example_mesh example_dofs 0]
  from T run have
    "assigned_bcs (trace st') = replicate 201 (new_bcs (the_env example_mesh example_dofs))
     \<and> solve_bcs (trace st') = replicate 201 (new_bcs (the_env example_mesh example_dofs))"
    by blast
  with run show ?thesis
    by blast
qed

text \<open>
  C6. The integrand \<^verbatim>\<open>sqrt(\<lambda>0**2)\<close> of the \<^verbatim>\<open>L0\<close> diagnostic is a function of the undeformed
  geometry alone: its integral is the same for all values of the load factor and of the
  functions \<^verbatim>\<open>u\<close>, \<^verbatim>\<open>w\<close>, \<^verbatim>\<open>r\<close>. Every \<^verbatim>\<open>L0\<close> printed by the loop is this one value; in a
  completed run of the script it is printed 201 times, and the first value printed equals
  the last.
\<close>

theorem undeformed_length_invariant:
  "(\<forall>c. assemble_scalar (\<lambda>x. sqrt ((x_lambda_0 (beam_forms mesh) c x)^2)) (dx mesh) =
         assemble_scalar (\<lambda>x. sqrt (dot3 (GRAD_x0 mesh x) (GRAD_x0 mesh x))) (dx mesh))
   \<and> (\<exists>j\<le>length fs.
         printed ''L0'' (trace (loop_end (load_steps P (the_env mesh dofs) fs st))) =
           printed ''L0'' (trace st) @
           replicate j (assemble_scalar (\<lambda>x. sqrt (dot3 (GRAD_x0 mesh x) (GRAD_x0 mesh x))) (dx mesh)))
   \<and> (\<forall>sol st'. beam_static P mesh dofs p0 = Inr (sol, st') \<longrightarrow>
         printed ''L0'' (trace st') =
           replicate 201 (assemble_scalar (\<lambda>x. sqrt (dot3 (GRAD_x0 mesh x) (GRAD_x0 mesh x))) (dx mesh))
       \<and> hd (printed ''L0'' (trace st')) = last (printed ''L0'' (trace st')))"
proof -
  let ?V = "assemble_scalar (\<lambda>x. sqrt (dot3 (GRAD_x0 mesh x) (GRAD_x0 mesh x))) (dx mesh)"
  let ?env = "the_env mesh dofs"
  have d: "printed ''L0'' (diagnostics ?env c) = [?V]" for c
    by (simp only: printed_diagnostics the_env_fields L0_value)
  have a: "\<forall>c. assemble_scalar (\<lambda>x. sqrt ((x_lambda_0 (beam_forms mesh) c x)^2)) (dx mesh) = ?V"
    by (simp only: L0_value simp_thms)
  have b: "\<exists>j\<le>length fs.
         printed ''L0'' (trace (loop_end (load_steps P ?env fs st))) =
           printed ''L0'' (trace st) @ replicate j ?V"
    using load_steps_printed [of "''L0''" ?env ?V fs P st, OF d] by blast
  have c: "printed ''L0'' (trace st') = replicate 201 ?V
       \<and> hd (printed ''L0'' (trace st')) = last (printed ''L0'' (trace st'))"
    if "beam_static P mesh dofs p0 = Inr (sol, st')" for sol st'
  proof -
    let ?st0 = "initial_state P mesh p0"
    let ?fs = "load_factors (200 + 1)"
    have run: "load_steps P ?env ?fs ?st0 = Inr st'"
      using beam_static_Inr(1) [OF that] by (simp add: process_load_steps_def)
    from load_steps_printed [of "''L0''" ?env ?V ?fs P ?st0, OF d] obtain j where
      "printed ''L0'' (trace (loop_end (load_steps P ?env ?fs ?st0))) =
         printed ''L0'' (trace ?st0) @ replicate j ?V"
      "\<forall>st'. load_steps P ?env ?fs ?st0 = Inr st' \<longrightarrow> j = length ?fs"
      by blast
    with run have r: "printed ''L0'' (trace st') = replicate 201 ?V"
      by (simp add: loop_end_def initial_state_trace length_load_factors)
    have "hd (replicate 201 ?V) = ?V" "last (replicate 201 ?V) = ?V"
      by simp_all
    with r show ?thesis
      by simp
  qed
  from a b c show ?thesis
    by blast
qed

theorem undeformed_length_invariant_witness:
  "\<exists>sol st'. beam_static converging_problem example_mesh example_dofs 0 = Inr (sol, st')
     \<and> printed ''L0'' (trace st') = replicate 201 1
     \<and> hd (printed ''L0'' (trace st')) = last (printed ''L0'' (trace st'))"
proof -
  from beam_static_converging_example obtain sol st' where
    run: "beam_static converging_problem example_mesh example_dofs 0 = Inr (sol, st')"
    by blast
  note T = undeformed_length_invariant [of example_mesh "[]" converging_problem example_dofs
      "initial_state converging_problem example_mesh 0" 0]
  have v: "assemble_scalar (\<lambda>x. sqrt (dot3 (GRAD_x0 example_mesh x) (GRAD_x0 example_mesh x)))
      (dx example_mesh) = 1"
    by (simp add: assemble_scalar_def GRAD_x0_def dot3_def example_mesh_def)
  from T run have
    "printed ''L0'' (trace st') =
       replicate 201 (assemble_scalar
         (\<lambda>x. sqrt (dot3 (GRAD_x0 example_mesh x) (GRAD_x0 example_mesh x))) (dx example_mesh))
     \<and> hd (printed ''L0'' (trace st')) = last (printed ''L0'' (trace st'))"
    by blast
  with run v show ?thesis
    by (intro exI [of _ sol] exI [of _ st']) simp
qed

text \<open>
  C7. When the script completes, the triple \<^verbatim>\<open>u_, w_, r_\<close> unpacked at line 255 is the
  variable \<^verbatim>\<open>m\<close> as the loop left it, and that is what the last call of the solver, the one
  at load factor 1, returned.
\<close>

theorem output_is_last_solution:
  assumes "beam_static P mesh dofs p0 = Inr ((u', w', r'), st')"
  shows "last_solve (trace st') = Some (1, [u', w', r'])
       \<and> m_var st' = [u', w', r']
       \<and> (\<exists>p. [u', w', r'] = snd (solve P 1 (new_bcs (the_env mesh dofs)) p))"
proof -
  let ?env = "the_env mesh dofs"
  let ?fs = "load_factors (200 + 1)"
  have run: "load_steps P ?env ?fs (initial_state P mesh p0) = Inr st'"
    using beam_static_Inr(1) [OF assms] by (simp add: process_load_steps_def)
  have m: "m_var st' = [u', w', r']"
    using beam_static_Inr(2) [OF assms] by simp
  have ne: "?fs \<noteq> []"
    using length_load_factors [of "200 + 1"] by auto
  have l: "last ?fs = 1"
    by (rule load_factors_last) simp
  from load_steps_last_solve [OF run ne] m l show ?thesis
    by simp
qed

theorem output_is_last_solution_witness:
  "\<exists>st'. beam_static converging_problem example_mesh example_dofs 0 =
       Inr ((Function_new, Function_new, Function_new), st')
     \<and> last_solve (trace st') = Some (1, [Function_new, Function_new, Function_new])
     \<and> m_var st' = [Function_new, Function_new, Function_new]"
proof -
  from beam_static_converging_example obtain sol st' where
    run: "beam_static converging_problem example_mesh example_dofs 0 = Inr (sol, st')"
    by blast
  obtain a b c where sol: "sol = (a, b, c)"
    by (cases sol) auto
  note T = output_is_last_solution [OF run [unfolded sol]]
  from T obtain p where
    "[a, b, c] = snd (solve converging_problem 1 (new_bcs (the_env example_mesh example_dofs)) p)"
    by blast
  then have "a = Function_new" "b = Function_new" "c = Function_new"
    by (simp_all add: converging_problem_def)
  with T run sol show ?thesis
    by auto
qed

text \<open>
  C8. The six load amplitudes \<^verbatim>\<open>p_1\<close>, \<^verbatim>\<open>p_3\<close>, \<^verbatim>\<open>m_2\<close>, \<^verbatim>\<open>F_1\<close>, \<^verbatim>\<open>F_3\<close>, \<^verbatim>\<open>M_2\<close> are zero and the
  prescribed strain \<^verbatim>\<open>ep\<close> is zero at every point for every load factor. So the strain \<^verbatim>\<open>e\<close>
  has no prescribed part, and for every load factor, state and variation the weak form \<^verbatim>\<open>F\<close>
  is the sum of its three internal terms: the terms scaled by \<^verbatim>\<open>\<mu>\<close> vanish.
\<close>

theorem external_loads_vanish:
  "v_p_1 (beam_forms mesh) = 0 \<and> v_p_3 (beam_forms mesh) = 0 \<and> v_m_2 (beam_forms mesh) = 0
   \<and> v_F_1 (beam_forms mesh) = 0 \<and> v_F_3 (beam_forms mesh) = 0 \<and> v_M_2 (beam_forms mesh) = 0
   \<and> x_ep (beam_forms mesh) c x = 0
   \<and> x_e (beam_forms mesh) c x =
       1 / 2 * ((x_lambda_s (beam_forms mesh) c x)^2 + (x_lambda_xi (beam_forms mesh) c x)^2
                - (x_lambda_0 (beam_forms mesh) c x)^2)
   \<and> x_F (beam_forms mesh) v c =
       - assemble_scalar (\<lambda>x. delta_e v c x * x_N (beam_forms mesh) c x) (dx mesh)
       - assemble_scalar (\<lambda>x. delta_g v c x * x_T (beam_forms mesh) c x) (dx mesh)
       - assemble_scalar (\<lambda>x. delta_k v c x * x_M (beam_forms mesh) c x) (dx mesh)"
  by (simp add: beam_forms_def Let_def assemble_scalar_zero)

text \<open>
  C9. When the loop starts, the name \<^verbatim>\<open>\<kappa>0\<close> stands for the constant \<open>- 2 \<pi>\<close>, not for the
  curvature \<^verbatim>\<open>-B0[0, 0]\<close> derived from the geometry at line 122: the bending strain \<^verbatim>\<open>k\<close> is
  built with the constant, and every \<^verbatim>\<open>\<kappa>0\<close> diagnostic printed by the loop is \<open>- 2 \<pi>\<close> times
  the measure of the domain (the integral of 1 over \<^verbatim>\<open>dx\<close>), the same at every load step,
  201 times in a completed run of the script.
\<close>

theorem kappa0_is_constant:
  "x_kappa0 (beam_forms mesh) c x = - 2 * pi
   \<and> x_kappa0_derived (beam_forms mesh) c x = - B0_00 mesh x
   \<and> x_k (beam_forms mesh) c x =
       x_lambda_s (beam_forms mesh) c x * x_kappa (beam_forms mesh) c x
       + (x_lambda_s (beam_forms mesh) c x - x_lambda_0 (beam_forms mesh) c x) * (- 2 * pi)
   \<and> (\<exists>j\<le>length fs.
         printed ''kappa0'' (trace (loop_end (load_steps P (the_env mesh dofs) fs st))) =
           printed ''kappa0'' (trace st) @
           replicate j (- 2 * pi * assemble_scalar (\<lambda>x. 1) (dx mesh)))
   \<and> (\<forall>sol st'. beam_static P mesh dofs p0 = Inr (sol, st') \<longrightarrow>
         printed ''kappa0'' (trace st') =
           replicate 201 (- 2 * pi * assemble_scalar (\<lambda>x. 1) (dx mesh)))"
proof -
  let ?V = "- 2 * pi * assemble_scalar (\<lambda>x. 1) (dx mesh)"
  let ?env = "the_env mesh dofs"
  have d: "printed ''kappa0'' (diagnostics ?env c) = [?V]" for c
    by (simp only: printed_diagnostics the_env_fields kappa0_value)
  have a: "x_kappa0 (beam_forms mesh) c x = - 2 * pi"
    by (rule beam_forms_kappa0)
  have a': "x_kappa0_derived (beam_forms mesh) c x = - B0_00 mesh x"
    by (simp add: beam_forms_def Let_def)
  have k: "x_k (beam_forms mesh) c x =
       x_lambda_s (beam_forms mesh) c x * x_kappa (beam_forms mesh) c x
       + (x_lambda_s (beam_forms mesh) c x - x_lambda_0 (beam_forms mesh) c x) * (- 2 * pi)"
    by (simp add: beam_forms_def Let_def)
  have b: "\<exists>j\<le>length fs.
         printed ''kappa0'' (trace (loop_end (load_steps P ?env fs st))) =
           printed ''kappa0'' (trace st) @ replicate j ?V"
    using load_steps_printed [of "''kappa0''" ?env ?V fs P st, OF d] by blast
  have e: "printed ''kappa0'' (trace st') = replicate 201 ?V"
    if "beam_static P mesh dofs p0 = Inr (sol, st')" for sol st'
  proof -
    let ?st0 = "initial_state P mesh p0"
    let ?fs = "load_factors (200 + 1)"
    have run: "load_steps P ?env ?fs ?st0 = Inr st'"
      using beam_static_Inr(1) [OF that] by (simp add: process_load_steps_def)
    from load_steps_printed [of "''kappa0''" ?env ?V ?fs P ?st0, OF d] obtain j where
      "printed ''kappa0'' (trace (loop_end (load_steps P ?env ?fs ?st0))) =
         printed ''kappa0'' (trace ?st0) @ replicate j ?V"
      "\<forall>st'. load_steps P ?env ?fs ?st0 = Inr st' \<longrightarrow> j = length ?fs"
      by blast
    with run show ?thesis
      by (simp add: loop_end_def initial_state_trace length_load_factors)
  qed
  from a a' k b e show ?thesis
    by blast
qed

theorem kappa0_is_constant_witness:
  "\<exists>sol st'. beam_static converging_problem example_mesh example_dofs 0 = Inr (sol, st')
     \<and> printed ''kappa0'' (trace st') = replicate 201 (- 2 * pi)
     \<and> x_kappa0_derived (beam_forms example_mesh) \<lparr>c_mu = 0, c_u = Function_new,
          c_w = Function_new, c_r = Function_new\<rparr> 0 = - 3"
proof -
  from beam_static_converging_example obtain sol st' where
    run: "beam_static converging_problem example_mesh example_dofs 0 = Inr (sol, st')"
    by blast
  note T = kappa0_is_constant [of example_mesh
      "\<lparr>c_mu = 0, c_u = Function_new, c_w = Function_new, c_r = Function_new\<rparr>" 0 "[]"
      converging_problem example_dofs "initial_state converging_problem example_mesh 0" 0]
  have v: "assemble_scalar (\<lambda>x. 1) (dx example_mesh) = 1"
    by (simp add: assemble_scalar_def example_mesh_def)
  from T run have p: "printed ''kappa0'' (trace st') =
      replicate 201 (- 2 * pi * assemble_scalar (\<lambda>x. 1) (dx example_mesh))"
    by blast
  from T have "x_kappa0_derived (beam_forms example_mesh) \<lparr>c_mu = 0, c_u = Function_new,
          c_w = Function_new, c_r = Function_new\<rparr> 0 = - B0_00 example_mesh 0"
    by blast
  then have b: "x_kappa0_derived (beam_forms example_mesh) \<lparr>c_mu = 0, c_u = Function_new,
          c_w = Function_new, c_r = Function_new\<rparr> 0 = - 3"
    by (simp add: example_mesh_def)
  from run p v b show ?thesis
    by (intro exI [of _ sol] exI [of _ st']) simp
qed

text \<open>
  C10. In the script the three prescribed functions are the zero functions created at lines
  219 to 221, and the loop never assigns to them: the boundary conditions of every solve,
  in a run that completes and in one that stops at a failed assertion, prescribe the zero
  function on the dofs of displacement and rotation located at the left end.
\<close>

theorem prescribed_values_are_zero:
  "new_bcs (the_env mesh (dofs_U, dofs_W, dofs_R)) =
     [\<lparr>bc_value = Function_new, bc_dofs = dofs_U\<rparr>,
      \<lparr>bc_value = Function_new, bc_dofs = dofs_W\<rparr>,
      \<lparr>bc_value = Function_new, bc_dofs = dofs_R\<rparr>]
   \<and> val (Function_new :: 'x Function) x = 0
   \<and> grad (Function_new :: 'x Function) x = (0, 0, 0)
   \<and> (\<exists>j\<le>201.
         map (map bc_value) (solve_bcs (trace (script_end (beam_static P mesh dofs p0)))) =
           replicate j [Function_new, Function_new, Function_new])
   \<and> (\<forall>sol st'. beam_static P mesh dofs p0 = Inr (sol, st') \<longrightarrow>
         map (map bc_value) (solve_bcs (trace st')) =
           replicate 201 [Function_new, Function_new, Function_new])"
proof -
  let ?env = "the_env mesh dofs"
  let ?st0 = "initial_state P mesh p0"
  let ?fs = "load_factors (200 + 1)"
  have a: "new_bcs (the_env mesh (dofs_U, dofs_W, dofs_R)) =
     [\<lparr>bc_value = Function_new, bc_dofs = dofs_U\<rparr>,
      \<lparr>bc_value = Function_new, bc_dofs = dofs_W\<rparr>,
      \<lparr>bc_value = Function_new, bc_dofs = dofs_R\<rparr>]"
    by (simp add: new_bcs_def the_env_def)
  have z: "val (Function_new :: 'x Function) x = 0" "grad (Function_new :: 'x Function) x = (0, 0, 0)"
    by (simp_all add: Function_new_def)
  have v: "map bc_value (new_bcs ?env) = [Function_new, Function_new, Function_new]"
    by (simp add: new_bcs_def the_env_fields)
  from load_steps_shape [of ?fs P ?env ?st0] obtain j where j: "j \<le> length ?fs"
    "solve_bcs (trace (loop_end (load_steps P ?env ?fs ?st0))) =
       solve_bcs (trace ?st0) @ replicate j (new_bcs ?env)"
    "\<forall>st'. load_steps P ?env ?fs ?st0 = Inr st' \<longrightarrow> j = length ?fs"
    by blast
  have s: "map (map bc_value) (solve_bcs (trace (script_end (beam_static P mesh dofs p0)))) =
      replicate j [Function_new, Function_new, Function_new]"
  proof -
    have "solve_bcs (trace (script_end (beam_static P mesh dofs p0))) = replicate j (new_bcs ?env)"
      using j(2) by (simp add: script_end_beam_static process_load_steps_def initial_state_trace)
    then show ?thesis
      by (simp add: v)
  qed
  have b: "\<exists>j\<le>201.
         map (map bc_value) (solve_bcs (trace (script_end (beam_static P mesh dofs p0)))) =
           replicate j [Function_new, Function_new, Function_new]"
    using s j(1) by (auto simp add: length_load_factors)
  have c: "map (map bc_value) (solve_bcs (trace st')) =
           replicate 201 [Function_new, Function_new, Function_new]"
    if "beam_static P mesh dofs p0 = Inr (sol, st')" for sol st'
  proof -
    have run: "load_steps P ?env ?fs ?st0 = Inr st'"
      using beam_static_Inr(1) [OF that] by (simp add: process_load_steps_def)
    then have "j = 201"
      using j(3) by (simp add: length_load_factors)
    moreover have "script_end (beam_static P mesh dofs p0) = st'"
      using that by (simp add: script_end_def)
    ultimately show ?thesis
      using s by simp
  qed
  from a z b c show ?thesis
    by blast
qed

theorem prescribed_values_are_zero_witness:
  "\<exists>sol st'. beam_static converging_problem example_mesh example_dofs 0 = Inr (sol, st')
     \<and> map (map bc_value) (solve_bcs (trace st')) =
         replicate 201 [Function_new, Function_new, Function_new]
     \<and> val (Function_new :: nat Function) 0 = 0"
proof -
  from beam_static_converging_example obtain sol st' where
    run: "beam_static converging_problem example_mesh example_dofs 0 = Inr (sol, st')"
    by blast
  note T = prescribed_values_are_zero [of example_mesh "[0]" "[0]" "[0]" "0::nat"
      converging_problem example_dofs 0]
  from T run have "map (map bc_value) (solve_bcs (trace st')) =
         replicate 201 [Function_new, Function_new, Function_new]"
    by blast
  moreover from T have "val (Function_new :: nat Function) 0 = 0"
    by blast
  ultimately show ?thesis
    using run by blast
qed

end
